theory Spec2Isabelle
  imports Main "HOL-Library.Word" "HOL-Library.Multiset"
begin

unbundle bit_operations_syntax

section \<open>Machine types and constants of ziprand.c / ziprand.h\<close>

text \<open>
  \<open>uint8_t\<close>, \<open>uint16_t\<close>, \<open>uint32_t\<close> and \<open>uint64_t\<close> are words of that width.
  \<open>size_t\<close> is taken as 64 bits wide (LP64).  \<open>int64_t\<close> is a 64-bit word that is read
  with \<open>sint\<close> and compared with the signed orders \<open>\<le>s\<close> and \<open><s\<close>; the conversions
  between \<open>int64_t\<close> and \<open>uint64_t\<close> of the C code keep the bit pattern.
\<close>

type_synonym u8 = "8 word"
type_synonym u16 = "16 word"
type_synonym u32 = "32 word"
type_synonym u64 = "64 word"
type_synonym i64 = "64 word"

definition EOCD_SIGNATURE :: u32 where
  "EOCD_SIGNATURE = 0x06054b50"

definition ZIP64_EOCD_SIGNATURE :: u32 where
  "ZIP64_EOCD_SIGNATURE = 0x06064b50"

definition ZIP64_EOCD_LOCATOR_SIGNATURE :: u32 where
  "ZIP64_EOCD_LOCATOR_SIGNATURE = 0x07064b50"

definition CENTRAL_DIR_SIGNATURE :: u32 where
  "CENTRAL_DIR_SIGNATURE = 0x02014b50"

definition LOCAL_HEADER_SIGNATURE :: u32 where
  "LOCAL_HEADER_SIGNATURE = 0x04034b50"

text \<open>The enum \<open>ziprand_error_t\<close> of ziprand.h (without \<open>ZIPRAND_OK\<close>, which is the
  \<open>Inr\<close> side of a result) and the numeric value of each enumerator.\<close>

datatype ziprand_error =
    ZIPRAND_ERR_IO
  | ZIPRAND_ERR_INVALID_ZIP
  | ZIPRAND_ERR_NOT_FOUND
  | ZIPRAND_ERR_COMPRESSED
  | ZIPRAND_ERR_NOMEM
  | ZIPRAND_ERR_INVALID_PARAM
  | ZIPRAND_ERR_SEEK_BEYOND_END

fun error_code :: "ziprand_error \<Rightarrow> i64" where
  "error_code ZIPRAND_ERR_IO = - 1"
| "error_code ZIPRAND_ERR_INVALID_ZIP = - 2"
| "error_code ZIPRAND_ERR_NOT_FOUND = - 3"
| "error_code ZIPRAND_ERR_COMPRESSED = - 4"
| "error_code ZIPRAND_ERR_NOMEM = - 5"
| "error_code ZIPRAND_ERR_INVALID_PARAM = - 6"
| "error_code ZIPRAND_ERR_SEEK_BEYOND_END = - 7"

text \<open>\<open>whence\<close> values of \<open><stdio.h>\<close>.\<close>

definition SEEK_SET :: int where "SEEK_SET = 0"
definition SEEK_CUR :: int where "SEEK_CUR = 1"
definition SEEK_END :: int where "SEEK_END = 2"

text \<open>
  A C function either returns a value or performs a load whose value the bytes delivered
  by the source do not determine (a byte past the end of a buffer, or a byte of a buffer
  that the last read did not write).  The second outcome is \<open>Fault\<close>.
\<close>

datatype 'a outcome = Done 'a | Fault

section \<open>Little-endian loads\<close>

text \<open>\<open>read_u16_le(&buf[i])\<close> and its siblings.  The C functions take a bare pointer; here
  the buffer is the list of bytes it holds and a load outside it gives \<open>None\<close>.\<close>

definition read_u16_le :: "u8 list \<Rightarrow> nat \<Rightarrow> u16 option" where
  "read_u16_le p i =
     (if i + 2 \<le> length p
      then Some (ucast (p ! i) OR push_bit 8 (ucast (p ! (i + 1))))
      else None)"

definition read_u32_le :: "u8 list \<Rightarrow> nat \<Rightarrow> u32 option" where
  "read_u32_le p i =
     (if i + 4 \<le> length p
      then Some (ucast (p ! i) OR push_bit 8 (ucast (p ! (i + 1)))
                 OR push_bit 16 (ucast (p ! (i + 2))) OR push_bit 24 (ucast (p ! (i + 3))))
      else None)"

definition read_u64_le :: "u8 list \<Rightarrow> nat \<Rightarrow> u64 option" where
  "read_u64_le p i =
     (if i + 8 \<le> length p
      then Some (ucast (p ! i) OR push_bit 8 (ucast (p ! (i + 1)))
                 OR push_bit 16 (ucast (p ! (i + 2))) OR push_bit 24 (ucast (p ! (i + 3)))
                 OR push_bit 32 (ucast (p ! (i + 4))) OR push_bit 40 (ucast (p ! (i + 5)))
                 OR push_bit 48 (ucast (p ! (i + 6))) OR push_bit 56 (ucast (p ! (i + 7))))
      else None)"

section \<open>The byte source\<close>

text \<open>
  \<open>struct ziprand_io\<close>.  The read callback \<open>read(ctx, offset, buffer, size)\<close> is a function
  of the offset and the size that yields the \<open>int64_t\<close> it returns and the bytes it
  stored at the start of \<open>buffer\<close>.  \<open>get_size\<close> is the value the size callback returns.
  The callbacks are functions, so a record always has both of them; the optional \<open>close\<close>
  callback is not used by any function modelled here.
\<close>

record ziprand_io =
  io_read :: "u64 \<Rightarrow> u64 \<Rightarrow> i64 \<times> u8 list"
  io_get_size :: i64

text \<open>\<open>memory_read\<close> and \<open>memory_size\<close> over the buffer \<open>data\<close>.\<close>

definition memory_read :: "u8 list \<Rightarrow> u64 \<Rightarrow> u64 \<Rightarrow> i64 \<times> u8 list" where
  "memory_read data off sz =
     (if length data \<le> unat off then (0, [])
      else let remaining = length data - unat off;
               to_read = (if unat sz < remaining then unat sz else remaining)
           in (of_nat to_read, take to_read (drop (unat off) data)))"

definition memory_io :: "u8 list \<Rightarrow> ziprand_io" where
  "memory_io data = \<lparr> io_read = memory_read data, io_get_size = of_nat (length data) \<rparr>"

text \<open>
  A read into a buffer of \<open>cap\<close> bytes (a stack array or a heap block of that size).  A
  callback that stores more than \<open>cap\<close> bytes writes past the buffer: \<open>Fault\<close>.  Otherwise
  the buffer is known to hold the bytes stored, and nothing more.
\<close>

definition read_into :: "ziprand_io \<Rightarrow> u64 \<Rightarrow> nat \<Rightarrow> u64 \<Rightarrow> (i64 \<times> u8 list) outcome" where
  "read_into s off cap sz =
     (case io_read s off sz of (r, w) \<Rightarrow> if cap < length w then Fault else Done (r, w))"

section \<open>The heap\<close>

text \<open>
  \<open>malloc\<close>, \<open>calloc\<close> and \<open>free\<close>.  Blocks are numbered in the order they are requested;
  \<open>live\<close> collects the blocks allocated and not yet freed; \<open>may_alloc k n\<close> tells whether
  the \<open>k\<close>-th request, for \<open>n\<close> bytes, succeeds, so that any allocation may fail.
\<close>

record allocator =
  may_alloc :: "nat \<Rightarrow> nat \<Rightarrow> bool"
  requests :: nat
  live :: "nat multiset"

definition malloc :: "nat \<Rightarrow> allocator \<Rightarrow> nat option \<times> allocator" where
  "malloc n h =
     (if may_alloc h (requests h) n
      then (Some (requests h),
            h\<lparr>requests := Suc (requests h), live := add_mset (requests h) (live h)\<rparr>)
      else (None, h\<lparr>requests := Suc (requests h)\<rparr>))"

definition free :: "nat \<Rightarrow> allocator \<Rightarrow> allocator" where
  "free p h = h\<lparr>live := live h - {#p#}\<rparr>"

text \<open>Object sizes under LP64.\<close>

definition sizeof_archive :: nat where "sizeof_archive = 56"
definition sizeof_entry :: nat where "sizeof_entry = 48"
definition sizeof_file :: nat where "sizeof_file = 24"

section \<open>Entries, archives and file views\<close>

text \<open>
  \<open>ziprand_entry_t\<close>: \<open>name\<close> is the byte string the \<open>char*\<close> points to and \<open>name_ptr\<close> the
  heap block that holds it.  \<open>offset\<close> is the offset of the local header.
\<close>

record ziprand_entry =
  name_ptr :: nat
  name :: "u8 list"
  compressed_size :: u64
  uncompressed_size :: u64
  offset :: u64
  data_offset :: u64
  compression_method :: u16

record ziprand_archive =
  io :: ziprand_io
  entries :: "ziprand_entry list"
  entry_count :: u64
  total_size :: u64

text \<open>
  \<open>struct ziprand_file\<close>.  The \<open>archive\<close> pointer is the archive every function below takes
  as an argument; the \<open>entry\<close> pointer points into the archive's entry table (it is what
  \<open>ziprand_get_entry_by_index\<close> and \<open>ziprand_find_entry\<close> return) and is the index of
  the entry there.
\<close>

record ziprand_file =
  entry :: nat
  position :: u64

section \<open>Reading through a file view\<close>

text \<open>\<open>ziprand_fread_at\<close>.  \<open>fp\<close> is the file pointer (\<open>None\<close> for \<open>NULL\<close>), \<open>buffer\<close> tells
  whether the buffer pointer is non-\<open>NULL\<close>.  The result is the returned \<open>int64_t\<close> and the
  bytes stored in the buffer.\<close>

fun ziprand_fread_at ::
  "ziprand_archive \<Rightarrow> ziprand_file option \<Rightarrow> u64 \<Rightarrow> bool \<Rightarrow> u64 \<Rightarrow> i64 \<times> u8 list" where
  "ziprand_fread_at a None off buffer sz = (- 1, [])"
| "ziprand_fread_at a (Some file) off buffer sz =
     (if \<not> buffer then (- 1, [])
      else if uncompressed_size (entries a ! entry file) \<le> off then (0, [])
      else let remaining = uncompressed_size (entries a ! entry file) - off;
               to_read = (if sz < remaining then sz else remaining)
           in io_read (io a) (data_offset (entries a ! entry file) + off) to_read)"

text \<open>\<open>ziprand_fread\<close>: the result, the bytes stored, and the file after the call.\<close>

fun ziprand_fread ::
  "ziprand_archive \<Rightarrow> ziprand_file option \<Rightarrow> bool \<Rightarrow> u64 \<Rightarrow>
     i64 \<times> u8 list \<times> ziprand_file option" where
  "ziprand_fread a None buffer sz = (- 1, [], None)"
| "ziprand_fread a (Some file) buffer sz =
     (let (result, bytes) = ziprand_fread_at a (Some file) (position file) buffer sz
      in if 0 <s result
         then (result, bytes, Some (file\<lparr>position := position file + result\<rparr>))
         else (result, bytes, Some file))"

text \<open>\<open>ziprand_fseek\<close>: the returned \<open>int64_t\<close> and the file after the call.  \<open>-offset\<close> is
  the two's complement negation.\<close>

definition fseek_new_pos :: "u64 \<Rightarrow> u64 \<Rightarrow> i64 \<Rightarrow> int \<Rightarrow> u64 option" where
  "fseek_new_pos pos usize off whence =
     (if whence = SEEK_SET then Some off
      else if whence = SEEK_CUR then
        (if 0 \<le>s off then Some (pos + off)
         else if pos < - off then Some 0
         else Some (pos - (- off)))
      else if whence = SEEK_END then
        (if 0 \<le>s off then Some (usize + off)
         else if usize < - off then Some 0
         else Some (usize - (- off)))
      else None)"

fun ziprand_fseek ::
  "ziprand_archive \<Rightarrow> ziprand_file option \<Rightarrow> i64 \<Rightarrow> int \<Rightarrow> i64 \<times> ziprand_file option" where
  "ziprand_fseek a None off whence = (- 1, None)"
| "ziprand_fseek a (Some file) off whence =
     (case fseek_new_pos (position file) (uncompressed_size (entries a ! entry file)) off whence of
        None \<Rightarrow> (- 1, Some file)
      | Some new_pos \<Rightarrow>
          if uncompressed_size (entries a ! entry file) < new_pos then (- 1, Some file)
          else (new_pos, Some (file\<lparr>position := new_pos\<rparr>)))"

fun ziprand_ftell :: "ziprand_file option \<Rightarrow> i64" where
  "ziprand_ftell None = - 1"
| "ziprand_ftell (Some file) = position file"

fun ziprand_fsize :: "ziprand_archive \<Rightarrow> ziprand_file option \<Rightarrow> i64" where
  "ziprand_fsize a None = - 1"
| "ziprand_fsize a (Some file) = uncompressed_size (entries a ! entry file)"

section \<open>Locating the central directory\<close>

text \<open>The inner loop of \<open>find_eocd\<close>, \<open>for (i = bytes_read - 4; i >= 0; i--)\<close>:
  \<open>scan_signature buffer k\<close> visits \<open>i = k - 1, \<dots>, 0\<close> and stops at the first match.\<close>

fun scan_signature :: "u8 list \<Rightarrow> nat \<Rightarrow> nat option outcome" where
  "scan_signature buffer 0 = Done None"
| "scan_signature buffer (Suc i) =
     (case read_u32_le buffer i of
        None \<Rightarrow> Fault
      | Some sig \<Rightarrow> if sig = EOCD_SIGNATURE then Done (Some i) else scan_signature buffer i)"

text \<open>The body of \<open>if (sig == EOCD_SIGNATURE)\<close>.\<close>

definition eocd_found ::
  "ziprand_archive \<Rightarrow> u8 list \<Rightarrow> i64 \<Rightarrow> u64 \<Rightarrow> nat \<Rightarrow> (ziprand_error + u64 \<times> u16) outcome" where
  "eocd_found a buffer bytes_read read_pos i =
     (let eocd_offset = read_pos + of_nat i in
      if int i + 10 < sint bytes_read then
        (case read_u16_le buffer (i + 10) of
           None \<Rightarrow> Fault
         | Some n \<Rightarrow> Done (Inr (eocd_offset, n)))
      else
        (case read_into (io a) (eocd_offset + 10) 2 2 of
           Fault \<Rightarrow> Fault
         | Done (r, entry_buf) \<Rightarrow>
             if r \<noteq> 2 then Done (Inl ZIPRAND_ERR_IO)
             else (case read_u16_le entry_buf 0 of
                     None \<Rightarrow> Fault
                   | Some n \<Rightarrow> Done (Inr (eocd_offset, n)))))"

text \<open>One pass through the body of the \<open>while\<close> loop of \<open>find_eocd\<close>: it returns, breaks, or
  goes on with a new \<open>search_pos\<close>.\<close>

datatype 'a step = Return 'a | Break | Next u64

definition find_eocd_chunk ::
  "ziprand_archive \<Rightarrow> u64 \<Rightarrow> u64 \<Rightarrow> u64 \<Rightarrow> (ziprand_error + u64 \<times> u16) outcome step" where
  "find_eocd_chunk a file_size max_search search_pos =
     (let chunk_size = (if 8192 < search_pos - (file_size - max_search) then 8192
                        else search_pos - (file_size - max_search));
          read_pos = search_pos - chunk_size
      in case read_into (io a) read_pos 8192 chunk_size of
           Fault \<Rightarrow> Return Fault
         | Done (bytes_read, buffer) \<Rightarrow>
             if bytes_read \<le>s 0 then Return (Done (Inl ZIPRAND_ERR_IO))
             else (case scan_signature buffer (nat (sint bytes_read - 3)) of
                     Fault \<Rightarrow> Return Fault
                   | Done (Some i) \<Rightarrow> Return (eocd_found a buffer bytes_read read_pos i)
                   | Done None \<Rightarrow> if read_pos < 3 then Break else Next read_pos))"

lemma find_eocd_chunk_Next:
  assumes "file_size - max_search < search_pos"
    and "find_eocd_chunk a file_size max_search search_pos = Next p"
  shows "unat p < unat search_pos"
proof -
  define d where "d = search_pos - (file_size - max_search)"
  define c where "c = (if 8192 < d then 8192 else d)"
  have le: "file_size - max_search \<le> search_pos"
    using assms(1) by simp
  have d0: "d \<noteq> 0"
    using assms(1) by (simp add: d_def)
  have dle: "d \<le> search_pos"
    unfolding d_def using le by (simp add: word_sub_le)
  have c0: "c \<noteq> 0"
    using d0 by (simp add: c_def)
  have cle: "c \<le> search_pos"
    using dle by (auto simp: c_def)
  have p: "p = search_pos - c"
    using assms(2)
    by (auto simp: find_eocd_chunk_def Let_def c_def d_def
        split: outcome.splits prod.splits if_splits option.splits)
  have "unat (search_pos - c) = unat search_pos - unat c"
    using cle by (simp add: unat_sub)
  moreover have "0 < unat c"
    using c0 by (simp add: unat_gt_0)
  moreover have "unat c \<le> unat search_pos"
    using cle by (simp add: word_le_nat_alt)
  ultimately show ?thesis
    using p by simp
qed

function find_eocd_loop ::
  "ziprand_archive \<Rightarrow> u64 \<Rightarrow> u64 \<Rightarrow> u64 \<Rightarrow> (ziprand_error + u64 \<times> u16) outcome" where
  "find_eocd_loop a file_size max_search search_pos =
     (if file_size - max_search < search_pos then
        (case find_eocd_chunk a file_size max_search search_pos of
           Return r \<Rightarrow> r
         | Break \<Rightarrow> Done (Inl ZIPRAND_ERR_INVALID_ZIP)
         | Next p \<Rightarrow> find_eocd_loop a file_size max_search p)
      else Done (Inl ZIPRAND_ERR_INVALID_ZIP))"
  by pat_completeness auto
termination
  by (relation "measure (\<lambda>(a, file_size, max_search, search_pos). unat search_pos)")
     (auto dest: find_eocd_chunk_Next)

declare find_eocd_loop.simps [simp del]

definition find_eocd :: "ziprand_archive \<Rightarrow> (ziprand_error + u64 \<times> u16) outcome" where
  "find_eocd a =
     (let file_size = total_size a;
          max_search = (if file_size < 65557 then file_size else 65557)
      in find_eocd_loop a file_size max_search file_size)"

text \<open>\<open>read_zip64_eocd\<close>.  \<open>scan_locator buf i n\<close> is the loop \<open>for (i = 0; i <= 16; i++)\<close>
  at index \<open>i\<close> with \<open>n\<close> iterations left; it yields the value of \<open>zip64_eocd_offset\<close> after
  the loop.\<close>

fun scan_locator :: "u8 list \<Rightarrow> nat \<Rightarrow> nat \<Rightarrow> u64 outcome" where
  "scan_locator search_buf i 0 = Done 0"
| "scan_locator search_buf i (Suc n) =
     (case read_u32_le search_buf i of
        None \<Rightarrow> Fault
      | Some sig \<Rightarrow>
          if sig = ZIP64_EOCD_LOCATOR_SIGNATURE
          then (case read_u64_le search_buf (i + 8) of None \<Rightarrow> Fault | Some v \<Rightarrow> Done v)
          else scan_locator search_buf (i + 1) n)"

definition read_zip64_eocd ::
  "ziprand_archive \<Rightarrow> u64 \<Rightarrow> (ziprand_error + u64 \<times> u64) outcome" where
  "read_zip64_eocd a eocd_offset =
     (let search_start = (if 20 < eocd_offset then eocd_offset - 20 else 0) in
      case read_into (io a) search_start 20 20 of
        Fault \<Rightarrow> Fault
      | Done (r, search_buf) \<Rightarrow>
          if r \<noteq> 20 then Done (Inl ZIPRAND_ERR_IO)
          else (case scan_locator search_buf 0 17 of
                  Fault \<Rightarrow> Fault
                | Done zip64_eocd_offset \<Rightarrow>
                    if zip64_eocd_offset = 0 then Done (Inl ZIPRAND_ERR_INVALID_ZIP)
                    else (case read_into (io a) zip64_eocd_offset 56 56 of
                            Fault \<Rightarrow> Fault
                          | Done (r2, buffer) \<Rightarrow>
                              if r2 \<noteq> 56 then Done (Inl ZIPRAND_ERR_IO)
                              else (case read_u32_le buffer 0 of
                                      None \<Rightarrow> Fault
                                    | Some sig \<Rightarrow>
                                        if sig \<noteq> ZIP64_EOCD_SIGNATURE
                                        then Done (Inl ZIPRAND_ERR_INVALID_ZIP)
                                        else (case (read_u64_le buffer 48,
                                                    read_u64_le buffer 32) of
                                                (Some cd_offset, Some num_entries) \<Rightarrow>
                                                  Done (Inr (cd_offset, num_entries))
                                              | _ \<Rightarrow> Fault)))))"

text \<open>\<open>get_cd_info\<close>: the central directory offset and the number of entries.\<close>

definition get_cd_info :: "ziprand_archive \<Rightarrow> (ziprand_error + u64 \<times> u64) outcome" where
  "get_cd_info a =
     (case find_eocd a of
        Fault \<Rightarrow> Fault
      | Done (Inl err) \<Rightarrow> Done (Inl err)
      | Done (Inr (eocd_offset, entries_16)) \<Rightarrow>
          (case read_into (io a) eocd_offset 22 22 of
             Fault \<Rightarrow> Fault
           | Done (r, eocd_buf) \<Rightarrow>
               if r \<noteq> 22 then Done (Inl ZIPRAND_ERR_IO)
               else (case read_u32_le eocd_buf 16 of
                       None \<Rightarrow> Fault
                     | Some cd_offset_32 \<Rightarrow>
                         if cd_offset_32 = 0xFFFFFFFF then read_zip64_eocd a eocd_offset
                         else Done (Inr (ucast cd_offset_32, ucast entries_16)))))"

section \<open>Parsing the central directory\<close>

text \<open>
  The ZIP64 extra field.  \<open>fill_field\<close> is one of the three \<open>if\<close> statements that replace
  an escaped 32-bit value by the next 8 bytes of the sub-record, \<open>lim\<close> being
  \<open>pos + 4 + data_size\<close>; \<open>zip64_fill\<close> is the body of \<open>if (header_id == 0x0001)\<close>;
  \<open>parse_extra\<close> is the \<open>while (pos + 4 <= extra_len)\<close> loop.  The triple is
  the variables \<open>uncompressed_size\<close>, \<open>compressed_size\<close> and \<open>local_offset\<close>, written
  \<open>(usize, csize, local_offset)\<close>.
\<close>

definition fill_field :: "u8 list \<Rightarrow> nat \<Rightarrow> u64 \<times> nat \<Rightarrow> (u64 \<times> nat) outcome" where
  "fill_field extra lim vp =
     (case vp of (v, field_pos) \<Rightarrow>
        if v = 0xFFFFFFFF \<and> field_pos + 8 \<le> lim
        then (case read_u64_le extra field_pos of
                None \<Rightarrow> Fault
              | Some w \<Rightarrow> Done (w, field_pos + 8))
        else Done (v, field_pos))"

definition zip64_fill ::
  "u8 list \<Rightarrow> nat \<Rightarrow> nat \<Rightarrow> u64 \<times> u64 \<times> u64 \<Rightarrow> (u64 \<times> u64 \<times> u64) outcome" where
  "zip64_fill extra pos data_size sizes =
     (case sizes of (usize, csize, local_offset) \<Rightarrow>
        (case fill_field extra (pos + 4 + data_size) (usize, pos + 4) of
           Fault \<Rightarrow> Fault
         | Done (u, fp1) \<Rightarrow>
             (case fill_field extra (pos + 4 + data_size) (csize, fp1) of
                Fault \<Rightarrow> Fault
              | Done (c, fp2) \<Rightarrow>
                  (case fill_field extra (pos + 4 + data_size) (local_offset, fp2) of
                     Fault \<Rightarrow> Fault
                   | Done (l, fp3) \<Rightarrow> Done (u, c, l)))))"

function parse_extra ::
  "u8 list \<Rightarrow> nat \<Rightarrow> nat \<Rightarrow> u64 \<times> u64 \<times> u64 \<Rightarrow> (u64 \<times> u64 \<times> u64) outcome" where
  "parse_extra extra extra_len pos sizes =
     (if pos + 4 \<le> extra_len then
        (case (read_u16_le extra pos, read_u16_le extra (pos + 2)) of
           (Some header_id, Some data_size) \<Rightarrow>
             if header_id = 0x0001 then zip64_fill extra pos (unat data_size) sizes
             else parse_extra extra extra_len (pos + 4 + unat data_size) sizes
         | _ \<Rightarrow> Fault)
      else Done sizes)"
  by pat_completeness auto
termination
  by (relation "measure (\<lambda>(extra, extra_len, pos, sizes). extra_len - pos)") auto

declare parse_extra.simps [simp del]

text \<open>The block \<open>if (extra_len > 0) { \<dots> }\<close> of \<open>read_cd_entry\<close>, reading at \<open>off\<close>.\<close>

definition read_extra ::
  "ziprand_archive \<Rightarrow> u64 \<Rightarrow> u16 \<Rightarrow> u64 \<times> u64 \<times> u64 \<Rightarrow> allocator \<Rightarrow>
     ((ziprand_error + u64 \<times> u64 \<times> u64) \<times> allocator) outcome" where
  "read_extra a off extra_len sizes h =
     (if 0 < extra_len then
        (case malloc (unat extra_len) h of
           (None, h1) \<Rightarrow> Done (Inl ZIPRAND_ERR_NOMEM, h1)
         | (Some extra_ptr, h1) \<Rightarrow>
             (case read_into (io a) off (unat extra_len) (ucast extra_len) of
                Fault \<Rightarrow> Fault
              | Done (r, extra) \<Rightarrow>
                  if r \<noteq> ucast extra_len then Done (Inl ZIPRAND_ERR_IO, free extra_ptr h1)
                  else (case (case sizes of (usize, csize, local_offset) \<Rightarrow>
                                if usize = 0xFFFFFFFF \<or> csize = 0xFFFFFFFF
                                   \<or> local_offset = 0xFFFFFFFF
                                then parse_extra extra (unat extra_len) 0 sizes
                                else Done sizes) of
                          Fault \<Rightarrow> Fault
                        | Done sizes' \<Rightarrow> Done (Inr sizes', free extra_ptr h1))))
      else Done (Inr sizes, h))"

text \<open>\<open>read_cd_entry\<close>: the error, or the entry and the advanced directory offset; and the
  heap after the call.\<close>

definition read_cd_entry ::
  "ziprand_archive \<Rightarrow> u64 \<Rightarrow> allocator \<Rightarrow>
     ((ziprand_error + ziprand_entry \<times> u64) \<times> allocator) outcome" where
  "read_cd_entry a off h =
     (case read_into (io a) off 46 46 of
        Fault \<Rightarrow> Fault
      | Done (r, header) \<Rightarrow>
          if r \<noteq> 46 then Done (Inl ZIPRAND_ERR_IO, h)
          else (case read_u32_le header 0 of
                  None \<Rightarrow> Fault
                | Some sig \<Rightarrow>
          if sig \<noteq> CENTRAL_DIR_SIGNATURE then Done (Inl ZIPRAND_ERR_INVALID_ZIP, h)
          else (case (read_u16_le header 10, read_u16_le header 28, read_u16_le header 30,
                      read_u16_le header 32, read_u32_le header 20, read_u32_le header 24,
                      read_u32_le header 42) of
                  (Some method, Some filename_len, Some extra_len, Some comment_len,
                   Some csize, Some usize, Some local_offset) \<Rightarrow>
          (case malloc (unat filename_len + 1) h of
             (None, h1) \<Rightarrow> Done (Inl ZIPRAND_ERR_NOMEM, h1)
           | (Some np, h1) \<Rightarrow>
          (case read_into (io a) (off + 46) (unat filename_len + 1) (ucast filename_len) of
             Fault \<Rightarrow> Fault
           | Done (r1, nm) \<Rightarrow>
          if r1 \<noteq> ucast filename_len then Done (Inl ZIPRAND_ERR_IO, free np h1)
          else (case read_extra a (off + 46 + ucast filename_len) extra_len
                       (ucast usize, ucast csize, ucast local_offset) h1 of
                  Fault \<Rightarrow> Fault
                | Done (Inl err, h2) \<Rightarrow> Done (Inl err, free np h2)
                | Done (Inr (u, c, l), h2) \<Rightarrow>
                    Done (Inr (\<lparr> name_ptr = np, name = nm, compressed_size = c,
                                 uncompressed_size = u, offset = l, data_offset = 0,
                                 compression_method = method \<rparr>,
                               off + 46 + ucast filename_len + ucast extra_len
                                 + ucast comment_len), h2))))
                | _ \<Rightarrow> Fault)))"

section \<open>Opening an archive\<close>

text \<open>The loop \<open>for (j = 0; j < i; j++) free(archive->entries[j].name)\<close>.\<close>

fun free_names :: "ziprand_entry list \<Rightarrow> allocator \<Rightarrow> allocator" where
  "free_names [] h = h"
| "free_names (e # es) h = free_names es (free (name_ptr e) h)"

text \<open>
  The loop \<open>for (i = 0; i < num_entries; i++)\<close> of \<open>ziprand_open\<close> with \<open>n\<close> entries still to
  read, \<open>off\<close> the directory offset and \<open>acc\<close> the entries read so far.  When an entry fails,
  the names read so far are freed and the result is \<open>None\<close>.
\<close>

fun read_entries ::
  "ziprand_archive \<Rightarrow> nat \<Rightarrow> u64 \<Rightarrow> ziprand_entry list \<Rightarrow> allocator \<Rightarrow>
     (ziprand_entry list option \<times> allocator) outcome" where
  "read_entries a 0 off acc h = Done (Some acc, h)"
| "read_entries a (Suc n) off acc h =
     (case read_cd_entry a off h of
        Fault \<Rightarrow> Fault
      | Done (Inl err, h') \<Rightarrow> Done (None, free_names acc h')
      | Done (Inr (e, off'), h') \<Rightarrow> read_entries a n off' (acc @ [e]) h')"

text \<open>\<open>ziprand_open\<close>: the archive (\<open>None\<close> for \<open>NULL\<close>) and the heap after the call.  The
  argument is the \<open>io\<close> pointer, \<open>None\<close> for \<open>NULL\<close>.\<close>

fun ziprand_open ::
  "ziprand_io option \<Rightarrow> allocator \<Rightarrow> (ziprand_archive option \<times> allocator) outcome" where
  "ziprand_open None h = Done (None, h)"
| "ziprand_open (Some s) h =
     (case malloc sizeof_archive h of
        (None, h1) \<Rightarrow> Done (None, h1)
      | (Some archive_ptr, h1) \<Rightarrow>
          if io_get_size s <s 0 then Done (None, free archive_ptr h1)
          else
            (let a = \<lparr> io = s, entries = [], entry_count = 0, total_size = io_get_size s \<rparr> in
             case get_cd_info a of
               Fault \<Rightarrow> Fault
             | Done (Inl err) \<Rightarrow> Done (None, free archive_ptr h1)
             | Done (Inr (cd_offset, num_entries)) \<Rightarrow>
                 (case malloc (unat num_entries * sizeof_entry) h1 of
                    (None, h2) \<Rightarrow> Done (None, free archive_ptr h2)
                  | (Some entries_ptr, h2) \<Rightarrow>
                      (case read_entries a (unat num_entries) cd_offset [] h2 of
                         Fault \<Rightarrow> Fault
                       | Done (None, h3) \<Rightarrow> Done (None, free archive_ptr (free entries_ptr h3))
                       | Done (Some es, h3) \<Rightarrow>
                           Done (Some (a\<lparr>entries := es, entry_count := num_entries\<rparr>), h3)))))"

section \<open>Lookup\<close>

text \<open>\<open>strcmp(x, y) == 0\<close> on NUL-terminated strings.\<close>

definition c_str :: "u8 list \<Rightarrow> u8 list" where
  "c_str xs = takeWhile (\<lambda>b. b \<noteq> 0) xs"

text \<open>The loop of \<open>ziprand_find_entry\<close> from index \<open>i\<close> on, over the entries not yet seen.\<close>

fun find_from :: "ziprand_entry list \<Rightarrow> u8 list \<Rightarrow> nat \<Rightarrow> nat option" where
  "find_from [] nm i = None"
| "find_from (e # es) nm i = (if c_str (name e) = c_str nm then Some i else find_from es nm (Suc i))"

fun ziprand_find_entry :: "ziprand_archive option \<Rightarrow> u8 list option \<Rightarrow> nat option" where
  "ziprand_find_entry (Some a) (Some nm) = find_from (take (unat (entry_count a)) (entries a)) nm 0"
| "ziprand_find_entry _ _ = None"

section \<open>Opening a file view\<close>

text \<open>\<open>get_data_offset\<close> for the entry at index \<open>i\<close>: the error, or the archive with the
  entry's \<open>data_offset\<close> set.\<close>

definition get_data_offset ::
  "ziprand_archive \<Rightarrow> nat \<Rightarrow> (ziprand_error + ziprand_archive) outcome" where
  "get_data_offset a i =
     (case read_into (io a) (offset (entries a ! i)) 30 30 of
        Fault \<Rightarrow> Fault
      | Done (r, local_header) \<Rightarrow>
          if r \<noteq> 30 then Done (Inl ZIPRAND_ERR_IO)
          else (case read_u32_le local_header 0 of
                  None \<Rightarrow> Fault
                | Some sig \<Rightarrow>
                    if sig \<noteq> LOCAL_HEADER_SIGNATURE then Done (Inl ZIPRAND_ERR_INVALID_ZIP)
                    else (case (read_u16_le local_header 26, read_u16_le local_header 28) of
                            (Some filename_len, Some extra_len) \<Rightarrow>
                              Done (Inr (a\<lparr>entries := (entries a)
                                [i := (entries a ! i)\<lparr>data_offset :=
                                   offset (entries a ! i) + 30 + ucast filename_len
                                     + ucast extra_len\<rparr>]\<rparr>))
                          | _ \<Rightarrow> Fault)))"

text \<open>
  \<open>ziprand_fopen\<close>.  The arguments are the archive pointer and the entry pointer (\<open>None\<close>
  for \<open>NULL\<close>); the result is the file (\<open>None\<close> for \<open>NULL\<close>), the archive after the call and
  the heap after the call.
\<close>

fun ziprand_fopen ::
  "ziprand_archive option \<Rightarrow> nat option \<Rightarrow> allocator \<Rightarrow>
     (ziprand_file option \<times> ziprand_archive option \<times> allocator) outcome" where
  "ziprand_fopen (Some a) (Some i) h =
     (if compression_method (entries a ! i) \<noteq> 0 then Done (None, Some a, h)
      else
        (case (if data_offset (entries a ! i) = 0 then get_data_offset a i else Done (Inr a)) of
           Fault \<Rightarrow> Fault
         | Done (Inl err) \<Rightarrow> Done (None, Some a, h)
         | Done (Inr a') \<Rightarrow>
             (case malloc sizeof_file h of
                (None, h1) \<Rightarrow> Done (None, Some a', h1)
              | (Some file_ptr, h1) \<Rightarrow> Done (Some \<lparr> entry = i, position = 0 \<rparr>, Some a', h1))))"
| "ziprand_fopen ap ep h = Done (None, ap, h)"

fun ziprand_fopen_by_name ::
  "ziprand_archive option \<Rightarrow> u8 list option \<Rightarrow> allocator \<Rightarrow>
     (ziprand_file option \<times> ziprand_archive option \<times> allocator) outcome" where
  "ziprand_fopen_by_name ap nm h =
     (case ziprand_find_entry ap nm of
        None \<Rightarrow> Done (None, ap, h)
      | Some i \<Rightarrow> ziprand_fopen ap (Some i) h)"

section \<open>Specification-side notions\<close>

text \<open>The exact integer a seek aims at, before any clamping and without wrap-around:
  \<open>offset\<close>, \<open>position + offset\<close> or \<open>uncompressed_size + offset\<close>.\<close>

definition seek_target :: "u64 \<Rightarrow> u64 \<Rightarrow> i64 \<Rightarrow> int \<Rightarrow> int option" where
  "seek_target pos usize off whence =
     (if whence = SEEK_SET then Some (sint off)
      else if whence = SEEK_CUR then Some (uint pos + sint off)
      else if whence = SEEK_END then Some (uint usize + sint off)
      else None)"

text \<open>The invariant of a file view: the cursor is not past the end of the entry.\<close>

definition view_inv :: "ziprand_archive \<Rightarrow> ziprand_file \<Rightarrow> bool" where
  "view_inv a f = (position f \<le> uncompressed_size (entries a ! entry f))"

text \<open>The archive as \<open>ziprand_open\<close> has it when it looks for the central directory: the
  source and the size snapshot are set, the entry table is empty.\<close>

definition archive0 :: "ziprand_io \<Rightarrow> ziprand_archive" where
  "archive0 s = \<lparr> io = s, entries = [], entry_count = 0, total_size = io_get_size s \<rparr>"

text \<open>
  \<open>parsed_chain a off h es\<close>: the entries \<open>es\<close> are what \<open>read_cd_entry\<close> returns, one after
  the other, starting at directory offset \<open>off\<close> with heap \<open>h\<close>, each call succeeding.
  \<open>some_entry_fails a n off h\<close>: among the next \<open>n\<close> directory entries one makes
  \<open>read_cd_entry\<close> return an error, those before it having succeeded.
\<close>

fun parsed_chain :: "ziprand_archive \<Rightarrow> u64 \<Rightarrow> allocator \<Rightarrow> ziprand_entry list \<Rightarrow> bool" where
  "parsed_chain a off h [] = True"
| "parsed_chain a off h (e # es) =
     (case read_cd_entry a off h of
        Done (Inr (e', off'), h') \<Rightarrow> e' = e \<and> parsed_chain a off' h' es
      | _ \<Rightarrow> False)"

fun some_entry_fails :: "ziprand_archive \<Rightarrow> nat \<Rightarrow> u64 \<Rightarrow> allocator \<Rightarrow> bool" where
  "some_entry_fails a 0 off h = False"
| "some_entry_fails a (Suc n) off h =
     (case read_cd_entry a off h of
        Done (Inl err, h') \<Rightarrow> True
      | Done (Inr (e, off'), h') \<Rightarrow> some_entry_fails a n off' h'
      | Fault \<Rightarrow> False)"

text \<open>
  The data offset the specification gives an entry whose local header is at \<open>off\<close>: the
  30-byte header read there must be complete and carry the signature \<open>0x04034b50\<close>; the
  offset is \<open>off + 30\<close> plus the file name length and the extra field length of that
  header, in \<open>uint64_t\<close>.
\<close>

definition local_header_data_offset :: "ziprand_io \<Rightarrow> u64 \<Rightarrow> u64 option" where
  "local_header_data_offset s off =
     (case io_read s off 30 of
        (r, local_header) \<Rightarrow>
          if r = 30 \<and> read_u32_le local_header 0 = Some LOCAL_HEADER_SIGNATURE
          then (case (read_u16_le local_header 26, read_u16_le local_header 28) of
                  (Some filename_len, Some extra_len) \<Rightarrow>
                    Some (off + 30 + ucast filename_len + ucast extra_len)
                | _ \<Rightarrow> None)
          else None)"

text \<open>An entry is unresolved (\<open>data_offset = 0\<close>) or holds the data offset of its local
  header.\<close>

definition data_offset_ok :: "ziprand_archive \<Rightarrow> ziprand_entry \<Rightarrow> bool" where
  "data_offset_ok a e =
     (data_offset e = 0 \<or> local_header_data_offset (io a) (offset e) = Some (data_offset e))"

text \<open>The archive with the data offset of entry \<open>i\<close> set to \<open>d\<close>.\<close>

definition set_data_offset :: "ziprand_archive \<Rightarrow> nat \<Rightarrow> u64 \<Rightarrow> ziprand_archive" where
  "set_data_offset a i d = a\<lparr>entries := (entries a)[i := (entries a ! i)\<lparr>data_offset := d\<rparr>]\<rparr>"

text \<open>
  The records the directory is located by, as the bytes of an archive hold them.
  \<open>eocd_fields data p\<close>: the 16-bit entry count (at 10) and the 32-bit directory offset
  (at 16) of an End-of-Central-Directory record at \<open>p\<close>, which carries the signature
  \<open>0x06054b50\<close>.  \<open>locator_at data p\<close>: the offset of the ZIP64 record (at 8) that a ZIP64
  locator at \<open>p\<close>, of signature \<open>0x07064b50\<close>, holds.  \<open>zip64_fields data p\<close>: the 64-bit
  entry count (at 32) and directory offset (at 48) of a ZIP64 End-of-Central-Directory
  record at \<open>p\<close>, of signature \<open>0x06064b50\<close>.  \<open>locator_window eo\<close>: where the 20 bytes
  before a record at \<open>eo\<close> start.
\<close>

definition eocd_fields :: "u8 list \<Rightarrow> nat \<Rightarrow> (u16 \<times> u32) option" where
  "eocd_fields data p =
     (case (read_u32_le data p, read_u16_le data (p + 10), read_u32_le data (p + 16)) of
        (Some sig, Some entry_count_16, Some cd_offset_32) \<Rightarrow>
          if sig = EOCD_SIGNATURE then Some (entry_count_16, cd_offset_32) else None
      | _ \<Rightarrow> None)"

definition locator_at :: "u8 list \<Rightarrow> nat \<Rightarrow> u64 option" where
  "locator_at data p =
     (if read_u32_le data p = Some ZIP64_EOCD_LOCATOR_SIGNATURE then read_u64_le data (p + 8)
      else None)"

definition zip64_fields :: "u8 list \<Rightarrow> nat \<Rightarrow> (u64 \<times> u64) option" where
  "zip64_fields data p =
     (case (read_u32_le data p, read_u64_le data (p + 32), read_u64_le data (p + 48)) of
        (Some sig, Some entry_count_64, Some cd_offset_64) \<Rightarrow>
          if sig = ZIP64_EOCD_SIGNATURE then Some (entry_count_64, cd_offset_64) else None
      | _ \<Rightarrow> None)"

definition locator_window :: "nat \<Rightarrow> nat" where
  "locator_window eo = (if 20 < eo then eo - 20 else 0)"

section \<open>A small archive\<close>

text \<open>
  A 193-byte archive with two members: \<open>a.txt\<close>, stored, holding \<open>hello\<close>, and \<open>b\<close>,
  deflated.  \<open>example_archive\<close> is what \<open>ziprand_open\<close> builds from it and
  \<open>example_opened\<close> the archive once the data offset of \<open>a.txt\<close> is resolved.
\<close>

definition example_zip :: "u8 list" where
  "example_zip =
     [0x50, 0x4b, 0x03, 0x04, 0x0a, 0x00, 0x00, 0x00, 0x00, 0x00, 0x00, 0x00, 0x00, 0x00,
      0x86, 0xa6, 0x10, 0x36, 0x05, 0x00, 0x00, 0x00, 0x05, 0x00, 0x00, 0x00, 0x05, 0x00,
      0x00, 0x00, 0x61, 0x2e, 0x74, 0x78, 0x74, 0x68, 0x65, 0x6c, 0x6c, 0x6f,
      0x50, 0x4b, 0x03, 0x04, 0x14, 0x00, 0x00, 0x00, 0x08, 0x00, 0x00, 0x00, 0x00, 0x00,
      0x00, 0x00, 0x00, 0x00, 0x02, 0x00, 0x00, 0x00, 0x00, 0x00, 0x00, 0x00, 0x01, 0x00,
      0x00, 0x00, 0x62, 0x03, 0x00,
      0x50, 0x4b, 0x01, 0x02, 0x14, 0x00, 0x0a, 0x00, 0x00, 0x00, 0x00, 0x00, 0x00, 0x00,
      0x00, 0x00, 0x86, 0xa6, 0x10, 0x36, 0x05, 0x00, 0x00, 0x00, 0x05, 0x00, 0x00, 0x00,
      0x05, 0x00, 0x00, 0x00, 0x00, 0x00, 0x00, 0x00, 0x00, 0x00, 0x00, 0x00, 0x00, 0x00,
      0x00, 0x00, 0x00, 0x00, 0x61, 0x2e, 0x74, 0x78, 0x74,
      0x50, 0x4b, 0x01, 0x02, 0x14, 0x00, 0x14, 0x00, 0x00, 0x00, 0x08, 0x00, 0x00, 0x00,
      0x00, 0x00, 0x00, 0x00, 0x00, 0x00, 0x02, 0x00, 0x00, 0x00, 0x00, 0x00, 0x00, 0x00,
      0x01, 0x00, 0x00, 0x00, 0x00, 0x00, 0x00, 0x00, 0x00, 0x00, 0x00, 0x00, 0x00, 0x00,
      0x28, 0x00, 0x00, 0x00, 0x62,
      0x50, 0x4b, 0x05, 0x06, 0x00, 0x00, 0x00, 0x00, 0x02, 0x00, 0x02, 0x00, 0x62, 0x00,
      0x00, 0x00, 0x49, 0x00, 0x00, 0x00, 0x00, 0x00]"

definition heap0 :: allocator where
  "heap0 = \<lparr> may_alloc = (\<lambda>k n. True), requests = 0, live = {#} \<rparr>"

definition example_archive :: ziprand_archive where
  "example_archive =
     \<lparr> io = memory_io example_zip,
       entries =
         [\<lparr> name_ptr = 2, name = [0x61, 0x2e, 0x74, 0x78, 0x74], compressed_size = 5,
             uncompressed_size = 5, offset = 0, data_offset = 0, compression_method = 0 \<rparr>,
          \<lparr> name_ptr = 3, name = [0x62], compressed_size = 2,
             uncompressed_size = 0, offset = 40, data_offset = 0, compression_method = 8 \<rparr>],
       entry_count = 2, total_size = 193 \<rparr>"

definition example_opened :: ziprand_archive where
  "example_opened =
     example_archive\<lparr>entries :=
       [\<lparr> name_ptr = 2, name = [0x61, 0x2e, 0x74, 0x78, 0x74], compressed_size = 5,
           uncompressed_size = 5, offset = 0, data_offset = 35, compression_method = 0 \<rparr>,
        \<lparr> name_ptr = 3, name = [0x62], compressed_size = 2,
           uncompressed_size = 0, offset = 40, data_offset = 0, compression_method = 8 \<rparr>]\<rparr>"

text \<open>The heap of \<open>heap0\<close> after \<open>k\<close> requests, with the blocks \<open>m\<close> live.\<close>

definition heap_after :: "nat \<Rightarrow> nat multiset \<Rightarrow> allocator" where
  "heap_after k m = heap0\<lparr>requests := k, live := m\<rparr>"

text \<open>The same archive with the signature of its second directory entry damaged.\<close>

definition broken_zip :: "u8 list" where
  "broken_zip = example_zip[124 := 0]"

text \<open>
  An empty archive of 8194 bytes: the End-of-Central-Directory record at offset 0 (no
  entries, comment length 8172), followed by a comment of 8172 zero bytes.
\<close>

definition straddle_zip :: "u8 list" where
  "straddle_zip =
     [0x50, 0x4b, 0x05, 0x06, 0x00, 0x00, 0x00, 0x00, 0x00, 0x00, 0x00, 0x00, 0x00, 0x00,
      0x00, 0x00, 0x00, 0x00, 0x00, 0x00, 0xec, 0x1f] @ replicate 8172 0"











text \<open>An archive whose one entry declares an uncompressed size of \<open>2^64 - 1\<close>, as a ZIP64
  extra field can.\<close>

definition huge_archive :: ziprand_archive where
  "huge_archive =
     \<lparr> io = memory_io example_zip,
       entries = [\<lparr> name_ptr = 2, name = [0x61], compressed_size = 0xFFFFFFFFFFFFFFFF,
                   uncompressed_size = 0xFFFFFFFFFFFFFFFF, offset = 0, data_offset = 35,
                   compression_method = 0 \<rparr>],
       entry_count = 1, total_size = 193 \<rparr>"

text \<open>
  An empty archive of 8203 bytes: the End-of-Central-Directory record at offset 0 (no
  entries, comment length 8181), followed by a comment of 8181 bytes \<open>A\<close>.
\<close>

definition count_zip :: "u8 list" where
  "count_zip =
     [0x50, 0x4b, 0x05, 0x06, 0x00, 0x00, 0x00, 0x00, 0x00, 0x00, 0x00, 0x00, 0x00, 0x00,
      0x00, 0x00, 0x00, 0x00, 0x00, 0x00, 0xf5, 0x1f] @ replicate 8181 0x41"

text \<open>
  A ZIP64 archive of 189 bytes with the one member \<open>a.txt\<close>: local header and data,
  central directory header at offset 40, ZIP64 End-of-Central-Directory record at offset
  91 (1 entry, directory at 40), its locator, and an End-of-Central-Directory record at
  offset 167 with every count, size and offset field escaped.
\<close>

definition example_zip64 :: "u8 list" where
  "example_zip64 =
     [0x50, 0x4b, 0x03, 0x04, 0x0a, 0x00, 0x00, 0x00, 0x00, 0x00, 0x00, 0x00, 0x00, 0x00,
      0x86, 0xa6, 0x10, 0x36, 0x05, 0x00, 0x00, 0x00, 0x05, 0x00, 0x00, 0x00, 0x05, 0x00,
      0x00, 0x00, 0x61, 0x2e, 0x74, 0x78, 0x74, 0x68, 0x65, 0x6c, 0x6c, 0x6f,
      0x50, 0x4b, 0x01, 0x02, 0x14, 0x00, 0x0a, 0x00, 0x00, 0x00, 0x00, 0x00, 0x00, 0x00,
      0x00, 0x00, 0x86, 0xa6, 0x10, 0x36, 0x05, 0x00, 0x00, 0x00, 0x05, 0x00, 0x00, 0x00,
      0x05, 0x00, 0x00, 0x00, 0x00, 0x00, 0x00, 0x00, 0x00, 0x00, 0x00, 0x00, 0x00, 0x00,
      0x00, 0x00, 0x00, 0x00, 0x61, 0x2e, 0x74, 0x78, 0x74,
      0x50, 0x4b, 0x06, 0x06, 0x2c, 0x00, 0x00, 0x00, 0x00, 0x00, 0x00, 0x00, 0x2d, 0x00,
      0x2d, 0x00, 0x00, 0x00, 0x00, 0x00, 0x00, 0x00, 0x00, 0x00,
      0x01, 0x00, 0x00, 0x00, 0x00, 0x00, 0x00, 0x00,
      0x01, 0x00, 0x00, 0x00, 0x00, 0x00, 0x00, 0x00,
      0x33, 0x00, 0x00, 0x00, 0x00, 0x00, 0x00, 0x00,
      0x28, 0x00, 0x00, 0x00, 0x00, 0x00, 0x00, 0x00,
      0x50, 0x4b, 0x06, 0x07, 0x00, 0x00, 0x00, 0x00,
      0x5b, 0x00, 0x00, 0x00, 0x00, 0x00, 0x00, 0x00, 0x01, 0x00, 0x00, 0x00,
      0x50, 0x4b, 0x05, 0x06, 0x00, 0x00, 0x00, 0x00, 0xff, 0xff, 0xff, 0xff,
      0xff, 0xff, 0xff, 0xff, 0xff, 0xff, 0xff, 0xff, 0x00, 0x00]"




text \<open>What \<open>ziprand_open\<close> builds from \<open>example_zip64\<close>.\<close>

definition example64_archive :: ziprand_archive where
  "example64_archive =
     \<lparr> io = memory_io example_zip64,
       entries =
         [\<lparr> name_ptr = 2, name = [0x61, 0x2e, 0x74, 0x78, 0x74], compressed_size = 5,
             uncompressed_size = 5, offset = 0, data_offset = 0, compression_method = 0 \<rparr>],
       entry_count = 1, total_size = 189 \<rparr>"

text \<open>
  An empty ZIP64 archive of 98 bytes: the ZIP64 End-of-Central-Directory record at
  offset 0 (no entries, an empty directory at offset 0), its locator at offset 56, and
  an End-of-Central-Directory record at offset 76 with the directory offset escaped.
\<close>

definition empty_zip64 :: "u8 list" where
  "empty_zip64 =
     [0x50, 0x4b, 0x06, 0x06, 0x2c, 0x00, 0x00, 0x00, 0x00, 0x00, 0x00, 0x00, 0x2d, 0x00,
      0x2d, 0x00, 0x00, 0x00, 0x00, 0x00, 0x00, 0x00, 0x00, 0x00,
      0x00, 0x00, 0x00, 0x00, 0x00, 0x00, 0x00, 0x00,
      0x00, 0x00, 0x00, 0x00, 0x00, 0x00, 0x00, 0x00,
      0x00, 0x00, 0x00, 0x00, 0x00, 0x00, 0x00, 0x00,
      0x00, 0x00, 0x00, 0x00, 0x00, 0x00, 0x00, 0x00,
      0x50, 0x4b, 0x06, 0x07, 0x00, 0x00, 0x00, 0x00,
      0x00, 0x00, 0x00, 0x00, 0x00, 0x00, 0x00, 0x00, 0x01, 0x00, 0x00, 0x00,
      0x50, 0x4b, 0x05, 0x06, 0x00, 0x00, 0x00, 0x00, 0x00, 0x00, 0x00, 0x00,
      0x00, 0x00, 0x00, 0x00, 0xff, 0xff, 0xff, 0xff, 0x00, 0x00]"

section \<open>Arithmetic of 64-bit words\<close>

lemma sint_64: "sint (w::64 word) = (if uint w < 2^63 then uint w else uint w - 2^64)"
proof -
  have b: "0 \<le> uint w" "uint w < 2^64"
    using uint_lt2p[of w] by simp_all
  have s: "sint w = (uint w + 2^63) mod 2^64 - 2^63"
    by (simp add: sint_uint signed_take_bit_eq_take_bit_shift take_bit_eq_mod)
  show ?thesis
  proof (cases "uint w < 2^63")
    case True
    then have "(uint w + 2^63) mod 2^64 = uint w + 2^63"
      using b by (intro mod_pos_pos_trivial) simp_all
    with True s show ?thesis by simp
  next
    case False
    then have "(uint w + 2^63) mod 2^64 = uint w + 2^63 - 2^64"
      using b mod_add_if_z[of "uint w" "2^64" "2^63"] by simp
    with False s show ?thesis by simp
  qed
qed

lemma uint_neg_64: "uint (- (w::64 word)) = (if uint w = 0 then 0 else 2^64 - uint w)"
  using uint_sub_if'[of 0 w] uint_lt2p[of w] by auto

lemma uint_add_64:
  "uint ((a::64 word) + b) =
     (if uint a + uint b < 2^64 then uint a + uint b else uint a + uint b - 2^64)"
  using uint_plus_if'[of a b] by simp

lemma uint_sub_64:
  "uint ((a::64 word) - b) =
     (if uint b \<le> uint a then uint a - uint b else uint a - uint b + 2^64)"
  using uint_sub_if'[of a b] by simp

lemma uint_bounds_64: "0 \<le> uint (w::64 word)" "uint (w::64 word) < 18446744073709551616"
  using uint_lt2p[of w] by simp_all

lemma uint_of_nat_64: "k < 18446744073709551616 \<Longrightarrow> uint (of_nat k :: 64 word) = int k"
proof -
  assume a: "k < 18446744073709551616"
  have "unat (of_nat k :: 64 word) = k mod 2 ^ 64"
    by (simp add: unat_of_nat)
  also have "\<dots> = k" using a by simp
  finally show ?thesis
    by (simp add: uint_nat)
qed

section \<open>The memory source\<close>

text \<open>\<open>memory_read\<close> never reports more bytes than were asked for.\<close>

lemma memory_read_le:
  assumes "length data < 9223372036854775808"
  shows "sint (fst (memory_read data off n)) \<le> uint n"
proof (cases "length data \<le> unat off")
  case True
  then show ?thesis by (simp add: memory_read_def)
next
  case False
  define k where "k = (if unat n < length data - unat off then unat n else length data - unat off)"
  have k: "k \<le> unat n" "k \<le> length data"
    by (auto simp: k_def)
  then have k63: "k < 9223372036854775808"
    using assms by linarith
  have r: "fst (memory_read data off n) = of_nat k"
    using False by (simp add: memory_read_def Let_def k_def)
  have u: "uint (of_nat k :: 64 word) = int k"
    using k63 by (intro uint_of_nat_64) linarith
  have s: "sint (of_nat k :: 64 word) = int k"
    using k63 by (simp add: sint_64 u)
  have "int k \<le> uint n"
    using k(1) by (metis of_nat_le_iff uint_nat)
  then show ?thesis
    by (simp only: r s)
qed

lemma length_example_zip: "length example_zip = 193"
  by (simp add: example_zip_def)

section \<open>Reading at an offset\<close>

text \<open>
  Claim C3.  For a view \<open>f\<close> of the archive \<open>a\<close> and a non-\<open>NULL\<close> buffer,
  \<open>ziprand_fread_at\<close> does not depend on the cursor of the view (and returns no new view:
  it cannot move the cursor); at an offset at or past the entry's uncompressed size it
  returns 0 and stores nothing; before it, it is exactly the source's read at
  \<open>data_offset + off\<close> for \<open>min sz (uncompressed_size - off)\<close> bytes: the count and bytes
  the source delivers, or the negative value the source returns.
\<close>

theorem fread_at_spec:
  "ziprand_fread_at a (Some (f\<lparr>position := p\<rparr>)) off True sz
     = ziprand_fread_at a (Some f) off True sz
   \<and> (uncompressed_size (entries a ! entry f) \<le> off \<longrightarrow>
        ziprand_fread_at a (Some f) off True sz = (0, []))
   \<and> (off < uncompressed_size (entries a ! entry f) \<longrightarrow>
        ziprand_fread_at a (Some f) off True sz
          = io_read (io a) (data_offset (entries a ! entry f) + off)
              (min sz (uncompressed_size (entries a ! entry f) - off)))"
  by (auto simp: Let_def min_def)

theorem fread_at_spec_witness:
  "ziprand_fread_at example_opened (Some \<lparr> entry = 0, position = 3 \<rparr>) 1 True 9
     = (4, [0x65, 0x6c, 0x6c, 0x6f])
   \<and> ziprand_fread_at example_opened (Some \<lparr> entry = 0, position = 3 \<rparr>) 5 True 9 = (0, [])
   \<and> ziprand_fread_at example_opened (Some \<lparr> entry = 0, position = 0 \<rparr>) 1 True 9
     = (4, [0x65, 0x6c, 0x6c, 0x6f])"
  using fread_at_spec[where a = example_opened and f = "\<lparr> entry = 0, position = 3 \<rparr>"
      and p = 0 and off = 1 and sz = 9]
    fread_at_spec[where a = example_opened and f = "\<lparr> entry = 0, position = 3 \<rparr>"
      and p = 0 and off = 5 and sz = 9]
  by (simp add: example_opened_def example_archive_def memory_io_def memory_read_def
      example_zip_def)

section \<open>Sequential reads\<close>

text \<open>
  Claim C4.  \<open>ziprand_fread\<close> returns what \<open>ziprand_fread_at\<close> returns at the cursor of
  the view, and leaves the view with the cursor advanced by the returned count when that
  count is positive (the addition is the one of \<open>uint64_t\<close>) and with the cursor where it
  was otherwise.  After \<open>ziprand_fseek\<close> to offset 0 from \<open>SEEK_SET\<close>, \<open>ziprand_fread\<close> of
  \<open>n\<close> bytes returns what \<open>ziprand_fread_at\<close> returns at offset 0 for \<open>n\<close> bytes.
\<close>

theorem fread_spec:
  "ziprand_fread a (Some f) b n =
     (case ziprand_fread_at a (Some f) (position f) b n of
        (r, bs) \<Rightarrow> (r, bs, Some (if 0 <s r then f\<lparr>position := position f + r\<rparr> else f)))
   \<and> (case ziprand_fseek a fp 0 SEEK_SET of
        (r0, fp0) \<Rightarrow> (case ziprand_fread a fp0 b n of
           (r, bs, fp1) \<Rightarrow> (r, bs) = ziprand_fread_at a fp 0 b n))"
  by (cases fp)
     (auto simp: Let_def fseek_new_pos_def SEEK_SET_def split: prod.splits if_splits)

theorem fread_spec_witness:
  "ziprand_fread example_opened (Some \<lparr> entry = 0, position = 2 \<rparr>) True 2
     = (2, [0x6c, 0x6c], Some \<lparr> entry = 0, position = 4 \<rparr>)
   \<and> ziprand_fread example_opened (Some \<lparr> entry = 0, position = 5 \<rparr>) True 2
     = (0, [], Some \<lparr> entry = 0, position = 5 \<rparr>)"
  using fread_spec[where a = example_opened and f = "\<lparr> entry = 0, position = 2 \<rparr>"
      and b = True and n = 2 and fp = None]
    fread_spec[where a = example_opened and f = "\<lparr> entry = 0, position = 5 \<rparr>"
      and b = True and n = 2 and fp = None]
  by (simp add: example_opened_def example_archive_def memory_io_def memory_read_def
      example_zip_def word_sless_alt)

section \<open>Seeking\<close>

text \<open>When the exact target of a seek is above the entry's size and below \<open>2^64\<close>, the
  position the code computes is above the entry's size.\<close>

lemma new_pos_beyond:
  assumes "seek_target pos usize off whence = Some t" "uint usize < t" "t < 2 ^ 64"
  shows "\<exists>np. fseek_new_pos pos usize off whence = Some np \<and> usize < np"
  using assms
  by (auto simp: seek_target_def fseek_new_pos_def word_less_def word_le_def word_sle_eq
      sint_64 uint_neg_64 uint_add_64 uint_sub_64 split: if_splits;
      use uint_ge_0[of usize] uint_ge_0[of pos] uint_ge_0[of off] in linarith)

text \<open>For \<open>SEEK_CUR\<close> and \<open>SEEK_END\<close> a target below zero is clamped: the seek succeeds
  and sets the position to 0.\<close>

lemma fseek_clamps:
  assumes "whence = SEEK_CUR \<or> whence = SEEK_END"
    and "seek_target (position f) (uncompressed_size (entries a ! entry f)) off whence = Some t"
    and "t < 0"
  shows "ziprand_fseek a (Some f) off whence = (0, Some (f\<lparr>position := 0\<rparr>))"
proof -
  have "fseek_new_pos (position f) (uncompressed_size (entries a ! entry f)) off whence = Some 0"
    using assms
    by (auto simp: seek_target_def fseek_new_pos_def SEEK_SET_def SEEK_CUR_def SEEK_END_def
        word_less_def word_sle_eq sint_64 uint_neg_64 split: if_splits;
        use uint_bounds_64[of off] uint_bounds_64[of "position f"]
          uint_bounds_64[of "uncompressed_size (entries a ! entry f)"] in linarith)
  then show ?thesis by simp
qed

text \<open>
  Claim C6.  The claim says that a seek whose result would be below zero is clamped to 0
  and succeeds, for \<open>SEEK_SET\<close> as for \<open>SEEK_CUR\<close> and \<open>SEEK_END\<close>.  For \<open>SEEK_SET\<close>
  the code assigns the signed offset to the unsigned \<open>new_pos\<close>: on the view of \<open>a.txt\<close>
  (5 bytes) at position 3, a seek to offset \<open>-1\<close> from \<open>SEEK_SET\<close> returns \<open>-1\<close> and leaves
  the position at 3; on an entry of declared size \<open>2^64 - 1\<close> the same seek is accepted and
  sets the position to \<open>2^64 - 1\<close>, which the call returns as \<open>-1\<close>.
\<close>

theorem fseek_set_negative:
  "ziprand_fseek example_opened (Some \<lparr> entry = 0, position = 3 \<rparr>) (- 1) SEEK_SET
     = (- 1, Some \<lparr> entry = 0, position = 3 \<rparr>)
   \<and> ziprand_fseek huge_archive (Some \<lparr> entry = 0, position = 3 \<rparr>) (- 1) SEEK_SET
     = (- 1, Some \<lparr> entry = 0, position = 0xFFFFFFFFFFFFFFFF \<rparr>)"
  by (simp add: example_opened_def example_archive_def huge_archive_def fseek_new_pos_def
      SEEK_SET_def)

text \<open>
  Claim C7, as the code has it.  A seek whose computed position \<open>new_pos\<close> exceeds the
  entry's uncompressed size returns \<open>-1\<close> and leaves the view as it was, so that
  \<open>ziprand_ftell\<close> gives the same value before and after.  \<open>new_pos\<close> is computed in
  \<open>uint64_t\<close>; whenever the exact target of the seek exceeds the size and is below \<open>2^64\<close>,
  the seek fails in this way.
\<close>

theorem fseek_beyond_end:
  "(fseek_new_pos (position f) (uncompressed_size (entries a ! entry f)) off whence = Some np
      \<and> uncompressed_size (entries a ! entry f) < np \<longrightarrow>
     ziprand_fseek a (Some f) off whence = (- 1, Some f)
     \<and> ziprand_ftell (snd (ziprand_fseek a (Some f) off whence)) = ziprand_ftell (Some f))
   \<and> (seek_target (position f) (uncompressed_size (entries a ! entry f)) off whence = Some t
      \<and> uint (uncompressed_size (entries a ! entry f)) < t \<and> t < 2 ^ 64 \<longrightarrow>
     ziprand_fseek a (Some f) off whence = (- 1, Some f))"
  using new_pos_beyond[of "position f" "uncompressed_size (entries a ! entry f)" off whence t]
  by auto

theorem fseek_beyond_end_witness:
  "fseek_new_pos 3 5 3 SEEK_CUR = Some 6 \<and> (5 :: u64) < 6
   \<and> seek_target 3 5 3 SEEK_CUR = Some 6 \<and> uint (5 :: u64) < 6 \<and> (6 :: int) < 2 ^ 64
   \<and> ziprand_fseek example_opened (Some \<lparr> entry = 0, position = 3 \<rparr>) 3 SEEK_CUR
       = (- 1, Some \<lparr> entry = 0, position = 3 \<rparr>)
   \<and> ziprand_ftell (snd (ziprand_fseek example_opened (Some \<lparr> entry = 0, position = 3 \<rparr>)
        3 SEEK_CUR)) = 3"
  using fseek_beyond_end[where a = example_opened and f = "\<lparr> entry = 0, position = 3 \<rparr>"
      and off = 3 and whence = SEEK_CUR and np = 6 and t = 6]
  by (simp add: example_opened_def example_archive_def fseek_new_pos_def seek_target_def
      SEEK_SET_def SEEK_CUR_def word_sle_eq)

text \<open>The value returned for a seek past the end is \<open>-1\<close>, the value of
  \<open>ZIPRAND_ERR_IO\<close>, and not \<open>ZIPRAND_ERR_SEEK_BEYOND_END\<close>: the seek of the view of
  \<open>a.txt\<close> (5 bytes) to offset 6.\<close>

theorem fseek_beyond_end_code:
  "ziprand_fseek example_opened (Some \<lparr> entry = 0, position = 3 \<rparr>) 6 SEEK_SET
     = (error_code ZIPRAND_ERR_IO, Some \<lparr> entry = 0, position = 3 \<rparr>)
   \<and> error_code ZIPRAND_ERR_IO \<noteq> error_code ZIPRAND_ERR_SEEK_BEYOND_END"
  by (simp add: example_opened_def example_archive_def fseek_new_pos_def SEEK_SET_def)

section \<open>Resolving the data offset\<close>

lemma get_data_offset_cases:
  assumes "get_data_offset a i = Done r"
  shows "(case local_header_data_offset (io a) (offset (entries a ! i)) of
            None \<Rightarrow> (\<exists>err. r = Inl err)
          | Some d \<Rightarrow> r = Inr (set_data_offset a i d))"
  using assms
  by (auto simp: get_data_offset_def local_header_data_offset_def read_into_def set_data_offset_def
      split: prod.splits if_splits option.splits)

lemma usize_set_data_offset:
  "uncompressed_size (entries (set_data_offset a i d) ! j) = uncompressed_size (entries a ! j)"
  by (cases "i < length (entries a)"; cases "i = j") (simp_all add: set_data_offset_def list_update_beyond)

lemma fopen_cases:
  assumes "ziprand_fopen (Some a) (Some i) h = Done (fo, ao, h')"
  shows "ao = Some a \<or> (\<exists>d. ao = Some (set_data_offset a i d) \<and> data_offset (entries a ! i) = 0
            \<and> compression_method (entries a ! i) = 0
            \<and> local_header_data_offset (io a) (offset (entries a ! i)) = Some d)"
proof (cases "compression_method (entries a ! i) \<noteq> 0 \<or> data_offset (entries a ! i) \<noteq> 0")
  case True
  with assms show ?thesis
    by (auto split: if_splits prod.splits option.splits)
next
  case False
  then obtain r where r: "get_data_offset a i = Done r"
    using assms by (auto split: outcome.splits)
  show ?thesis
    using assms False r get_data_offset_cases[OF r]
    by (auto split: sum.splits prod.splits option.splits)
qed


section \<open>Opening a view\<close>

lemma data_offset_ok_set:
  assumes "\<forall>e\<in>set (entries a). data_offset_ok a e"
    and "local_header_data_offset (io a) (offset (entries a ! i)) = Some d"
  shows "\<forall>e\<in>set (entries (set_data_offset a i d)). data_offset_ok (set_data_offset a i d) e"
proof
  fix e assume "e \<in> set (entries (set_data_offset a i d))"
  then have "e \<in> insert ((entries a ! i)\<lparr>data_offset := d\<rparr>) (set (entries a))"
    using set_update_subset_insert[of "entries a" i] by (auto simp: set_data_offset_def)
  then show "data_offset_ok (set_data_offset a i d) e"
    using assms by (auto simp: data_offset_ok_def set_data_offset_def)
qed

text \<open>
  Claim C5.  Let \<open>ziprand_fopen\<close> return for entry \<open>i\<close> of \<open>a\<close>; the archive after the call
  has the same source.  If the entry is stored and unresolved (\<open>data_offset = 0\<close>), the
  30-byte local header at the entry's \<open>offset\<close> is read: unless the read is complete and
  the signature is \<open>0x04034b50\<close> no file is returned and the archive is unchanged;
  otherwise the entry of the archive (the one every view of it shares) gets
  \<open>data_offset = offset + 30 + filename_len + extra_len\<close>, with the two lengths of the
  local header.  If the entry is already resolved the archive is unchanged: the value
  is kept and the header is not read again.  If every entry of the archive is unresolved
  or holds the data offset of its local header, the same is true after the call.
\<close>

theorem fopen_data_offset:
  "ziprand_fopen (Some a) (Some i) h = Done (fo, ao, h') \<longrightarrow>
     (\<exists>a'. ao = Some a' \<and> io a' = io a
        \<and> (compression_method (entries a ! i) = 0 \<and> data_offset (entries a ! i) = 0 \<longrightarrow>
             (case local_header_data_offset (io a) (offset (entries a ! i)) of
                None \<Rightarrow> fo = None \<and> a' = a
              | Some d \<Rightarrow> a' = set_data_offset a i d))
        \<and> (compression_method (entries a ! i) \<noteq> 0 \<or> data_offset (entries a ! i) \<noteq> 0 \<longrightarrow>
             a' = a)
        \<and> ((\<forall>e\<in>set (entries a). data_offset_ok a e) \<longrightarrow>
             (\<forall>e\<in>set (entries a'). data_offset_ok a' e)))"
proof
  assume op: "ziprand_fopen (Some a) (Some i) h = Done (fo, ao, h')"
  show "\<exists>a'. ao = Some a' \<and> io a' = io a
        \<and> (compression_method (entries a ! i) = 0 \<and> data_offset (entries a ! i) = 0 \<longrightarrow>
             (case local_header_data_offset (io a) (offset (entries a ! i)) of
                None \<Rightarrow> fo = None \<and> a' = a
              | Some d \<Rightarrow> a' = set_data_offset a i d))
        \<and> (compression_method (entries a ! i) \<noteq> 0 \<or> data_offset (entries a ! i) \<noteq> 0 \<longrightarrow>
             a' = a)
        \<and> ((\<forall>e\<in>set (entries a). data_offset_ok a e) \<longrightarrow>
             (\<forall>e\<in>set (entries a'). data_offset_ok a' e))"
  proof (cases "compression_method (entries a ! i) = 0 \<and> data_offset (entries a ! i) = 0")
    case False
    with op have "ao = Some a"
      by (auto split: if_splits prod.splits option.splits)
    with False show ?thesis by auto
  next
    case True
    then obtain r where r: "get_data_offset a i = Done r"
      using op by (auto split: outcome.splits)
    show ?thesis
    proof (cases "local_header_data_offset (io a) (offset (entries a ! i))")
      case None
      with get_data_offset_cases[OF r] obtain err where "r = Inl err" by auto
      with op True r have "fo = None" "ao = Some a" by auto
      with None True show ?thesis by auto
    next
      case (Some d)
      with get_data_offset_cases[OF r] have "r = Inr (set_data_offset a i d)" by auto
      with op True r have "ao = Some (set_data_offset a i d)"
        by (auto split: prod.splits option.splits)
      with Some True data_offset_ok_set[of a i d] show ?thesis
        by (auto simp: set_data_offset_def)
    qed
  qed
qed

text \<open>
  Claim C8, as the code has it.  On an entry whose compression method is not 0,
  \<open>ziprand_fopen\<close> returns \<open>NULL\<close> and changes neither the archive nor the heap; a call of
  \<open>ziprand_fopen\<close> that returns a file was given an entry of compression method 0;
  \<open>ziprand_fopen_by_name\<close> returns \<open>NULL\<close> when the name resolves to an entry whose method
  is not 0.  \<open>NULL\<close> is the only failure value of the function: no error code is
  reported.
\<close>

theorem fopen_compressed:
  "(compression_method (entries a ! i) \<noteq> 0 \<longrightarrow>
      ziprand_fopen (Some a) (Some i) h = Done (None, Some a, h))
   \<and> (ziprand_fopen ap ep h = Done (Some f, ao, h') \<longrightarrow>
      (\<exists>b j. ap = Some b \<and> ep = Some j \<and> compression_method (entries b ! j) = 0))
   \<and> (ziprand_find_entry (Some a) nm = Some i \<and> compression_method (entries a ! i) \<noteq> 0 \<longrightarrow>
      ziprand_fopen_by_name (Some a) nm h = Done (None, Some a, h))"
  by (cases ap; cases ep) (auto split: if_splits)

section \<open>The invariant of a view\<close>

lemma fseek_inv:
  "ziprand_fseek a (Some f) off whence = (r, Some f') \<Longrightarrow> view_inv a f \<Longrightarrow> view_inv a f'"
  by (auto simp: view_inv_def split: option.splits if_splits)

lemma fread_inv:
  assumes io: "\<forall>off n. sint (fst (io_read (io a) off n)) \<le> uint n"
   and rd: "ziprand_fread a (Some f) b n = (r, bs, Some f')" and inv: "view_inv a f"
  shows "view_inv a f'"
proof (cases "0 <s r")
  case False
  with rd have "f' = f"
    by (auto simp: Let_def split: prod.splits if_splits)
  with inv show ?thesis by simp
next
  case True
  define u where "u = uncompressed_size (entries a ! entry f)"
  define p where "p = position f"
  from True rd have f': "f' = f\<lparr>position := p + r\<rparr>"
    and r: "ziprand_fread_at a (Some f) p b n = (r, bs)"
    by (auto simp: Let_def p_def split: prod.splits if_splits)
  from True have rpos: "0 < sint r"
    by (simp add: word_sless_alt)
  have lt: "p < u"
    using r True by (auto simp: u_def split: if_splits)
  have "r = fst (io_read (io a) (data_offset (entries a ! entry f) + p) (if n < u - p then n else u - p))"
    using r True lt by (auto simp: u_def Let_def split: if_splits)
  with io have "sint r \<le> uint (if n < u - p then n else u - p)"
    by metis
  then have "sint r \<le> uint (u - p)"
    by (auto simp: word_less_def split: if_splits)
  moreover have "uint (u - p) = uint u - uint p"
    using lt by (simp add: uint_sub_64 word_less_def)
  ultimately have le: "sint r \<le> uint u - uint p" by simp
  have "uint r = sint r"
    using rpos by (auto simp: sint_64 split: if_splits; use uint_bounds_64[of r] in linarith)
  with le rpos have "uint (p + r) = uint p + uint r" "uint p + uint r \<le> uint u"
    by (auto simp: uint_add_64; use uint_bounds_64[of u] uint_bounds_64[of r] in linarith)+
  then have "p + r \<le> u"
    by (simp add: word_le_def)
  then show ?thesis
    by (simp add: view_inv_def f' u_def)
qed

lemma fopen_position:
  "ziprand_fopen ap ep h = Done (Some f, ao, h') \<Longrightarrow> position f = 0"
  by (cases ap; cases ep)
     (auto split: if_splits outcome.splits sum.splits prod.splits option.splits)

lemma fopen_inv:
  assumes "ziprand_fopen (Some a) (Some i) h = Done (fo, Some a', h')" "view_inv a g"
  shows "view_inv a' g"
  using fopen_cases[OF assms(1)] assms(2)
  by (auto simp: view_inv_def usize_set_data_offset)

text \<open>
  Claim C10.  A view returned by \<open>ziprand_fopen\<close> has position 0 and satisfies
  \<open>position \<le> uncompressed_size\<close>.  If the read callback of the source never returns more
  than the size it was asked for, \<open>ziprand_fread\<close> keeps the invariant; \<open>ziprand_fseek\<close>
  keeps it; and so does a \<open>ziprand_fopen\<close> on the same archive, which may write the data
  offset of an entry.  \<open>ziprand_fread_at\<close>, \<open>ziprand_ftell\<close> and \<open>ziprand_fsize\<close> return
  no view: they cannot change the position.
\<close>

theorem view_inv_preserved:
  "(ziprand_fopen ap ep h = Done (Some f, Some a', h') \<longrightarrow> position f = 0 \<and> view_inv a' f)
   \<and> ((\<forall>off n. sint (fst (io_read (io a) off n)) \<le> uint n) \<and> view_inv a g
        \<and> ziprand_fread a (Some g) b n = (r, bs, Some g') \<longrightarrow> view_inv a g')
   \<and> (view_inv a g \<and> ziprand_fseek a (Some g) off whence = (r', Some g'') \<longrightarrow> view_inv a g'')
   \<and> (view_inv a g \<and> ziprand_fopen (Some a) (Some i) h = Done (fo, Some a'', h'') \<longrightarrow> view_inv a'' g)"
proof (intro conjI impI)
  assume "ziprand_fopen ap ep h = Done (Some f, Some a', h')"
  then show "position f = 0" by (rule fopen_position)
  then show "view_inv a' f" by (simp add: view_inv_def)
next
  assume "(\<forall>off n. sint (fst (io_read (io a) off n)) \<le> uint n) \<and> view_inv a g
        \<and> ziprand_fread a (Some g) b n = (r, bs, Some g')"
  then show "view_inv a g'" using fread_inv by blast
next
  assume "view_inv a g \<and> ziprand_fseek a (Some g) off whence = (r', Some g'')"
  then show "view_inv a g''" using fseek_inv by blast
next
  assume "view_inv a g \<and> ziprand_fopen (Some a) (Some i) h = Done (fo, Some a'', h'')"
  then show "view_inv a'' g" using fopen_inv by blast
qed

lemma example_fopen:
  "ziprand_fopen (Some example_archive) (Some 0) heap0
     = Done (Some \<lparr> entry = 0, position = 0 \<rparr>, Some example_opened,
             heap0\<lparr>requests := 1, live := {#0#}\<rparr>)"
  by (simp add: example_archive_def example_opened_def heap0_def get_data_offset_def
      read_into_def memory_io_def memory_read_def example_zip_def read_u32_le_def
      read_u16_le_def LOCAL_HEADER_SIGNATURE_def malloc_def sizeof_file_def)


lemma example_io_bounded:
  "\<forall>off n. sint (fst (io_read (io example_opened) off n)) \<le> uint n"
  using memory_read_le[of example_zip]
  by (simp add: example_opened_def example_archive_def memory_io_def length_example_zip)

lemma example_fread:
  "ziprand_fread example_opened (Some \<lparr> entry = 0, position = 0 \<rparr>) True 3
       = (3, [0x68, 0x65, 0x6c], Some \<lparr> entry = 0, position = 3 \<rparr>)"
  by (simp add: example_opened_def example_archive_def memory_io_def
      memory_read_def example_zip_def word_sless_alt)

lemma example_fseek:
  "ziprand_fseek example_opened (Some \<lparr> entry = 0, position = 3 \<rparr>) (- 1) SEEK_END
       = (4, Some \<lparr> entry = 0, position = 4 \<rparr>)"
  by (simp add: example_opened_def example_archive_def fseek_new_pos_def SEEK_SET_def
      SEEK_CUR_def SEEK_END_def word_sle_eq)

lemma example_view_inv: "view_inv example_opened \<lparr> entry = 0, position = 0 \<rparr>"
  by (simp add: view_inv_def)

theorem view_inv_preserved_witness:
  "ziprand_fopen (Some example_archive) (Some 0) heap0
     = Done (Some \<lparr> entry = 0, position = 0 \<rparr>, Some example_opened,
             heap0\<lparr>requests := 1, live := {#0#}\<rparr>)
   \<and> view_inv example_opened \<lparr> entry = 0, position = 0 \<rparr>
   \<and> ziprand_fread example_opened (Some \<lparr> entry = 0, position = 0 \<rparr>) True 3
       = (3, [0x68, 0x65, 0x6c], Some \<lparr> entry = 0, position = 3 \<rparr>)
   \<and> view_inv example_opened \<lparr> entry = 0, position = 3 \<rparr>
   \<and> ziprand_fseek example_opened (Some \<lparr> entry = 0, position = 3 \<rparr>) (- 1) SEEK_END
       = (4, Some \<lparr> entry = 0, position = 4 \<rparr>)
   \<and> view_inv example_opened \<lparr> entry = 0, position = 4 \<rparr>"
proof -
  note t = view_inv_preserved[where ap = "Some example_archive" and ep = "Some 0" and h = heap0
      and f = "\<lparr> entry = 0, position = 0 \<rparr>" and a' = example_opened
      and h' = "heap0\<lparr>requests := 1, live := {#0#}\<rparr>"
      and a = example_opened and g = "\<lparr> entry = 0, position = 0 \<rparr>" and b = True and n = 3
      and r = 3 and bs = "[0x68, 0x65, 0x6c]" and g' = "\<lparr> entry = 0, position = 3 \<rparr>"]
  note u = view_inv_preserved[where a = example_opened and g = "\<lparr> entry = 0, position = 3 \<rparr>"
      and off = "- 1" and whence = SEEK_END and r' = 4 and g'' = "\<lparr> entry = 0, position = 4 \<rparr>"
      and ap = None]
  have i3: "view_inv example_opened \<lparr> entry = 0, position = 3 \<rparr>"
    using t example_io_bounded example_view_inv example_fread by blast
  have i4: "view_inv example_opened \<lparr> entry = 0, position = 4 \<rparr>"
    using u i3 example_fseek by blast
  show ?thesis
    using example_fopen example_view_inv example_fread example_fseek i3 i4 by blast
qed


lemma example_lfh: "local_header_data_offset (io example_archive) 0 = Some 35"
  by (simp add: local_header_data_offset_def example_archive_def memory_io_def memory_read_def
      example_zip_def read_u32_le_def read_u16_le_def LOCAL_HEADER_SIGNATURE_def)

lemma example_entry0:
  "compression_method (entries example_archive ! 0) = 0"
  "data_offset (entries example_archive ! 0) = 0"
  "offset (entries example_archive ! 0) = 0"
  by (simp_all add: example_archive_def)

lemma example_entry1:
  "compression_method (entries example_archive ! 1) = 8"
  by (simp add: example_archive_def)

theorem fopen_data_offset_witness:
  "ziprand_fopen (Some example_archive) (Some 0) heap0
     = Done (Some \<lparr> entry = 0, position = 0 \<rparr>, Some example_opened,
             heap0\<lparr>requests := 1, live := {#0#}\<rparr>)
   \<and> local_header_data_offset (io example_archive) (offset (entries example_archive ! 0)) = Some 35
   \<and> example_opened = set_data_offset example_archive 0 35
   \<and> data_offset (entries example_opened ! 0) = 35
   \<and> data_offset_ok example_opened (entries example_opened ! 0)
   \<and> data_offset_ok example_opened (entries example_opened ! 1)"
proof -
  note t = fopen_data_offset[where a = example_archive and i = 0 and h = heap0
      and fo = "Some \<lparr> entry = 0, position = 0 \<rparr>" and ao = "Some example_opened"
      and h' = "heap0\<lparr>requests := 1, live := {#0#}\<rparr>"]
  have pre: "\<forall>e\<in>set (entries example_archive). data_offset_ok example_archive e"
    by (simp add: example_archive_def data_offset_ok_def)
  have eq: "example_opened = set_data_offset example_archive 0 35"
    using t example_fopen example_lfh example_entry0 by auto
  have "\<forall>e\<in>set (entries example_opened). data_offset_ok example_opened e"
    using t example_fopen pre by auto
  then have ok: "data_offset_ok example_opened (entries example_opened ! 0)"
    "data_offset_ok example_opened (entries example_opened ! 1)"
    by (simp_all add: example_opened_def)
  have "data_offset (entries example_opened ! 0) = 35"
    by (simp add: example_opened_def)
  with eq ok example_fopen example_lfh example_entry0 show ?thesis
    by simp
qed

lemma example_find_b: "ziprand_find_entry (Some example_archive) (Some [0x62]) = Some 1"
  by (simp add: example_archive_def c_str_def)

theorem fopen_compressed_witness:
  "compression_method (entries example_archive ! 1) \<noteq> 0
   \<and> ziprand_fopen (Some example_archive) (Some 1) heap0 = Done (None, Some example_archive, heap0)
   \<and> ziprand_find_entry (Some example_archive) (Some [0x62]) = Some 1
   \<and> ziprand_fopen_by_name (Some example_archive) (Some [0x62]) heap0
       = Done (None, Some example_archive, heap0)
   \<and> ziprand_fopen (Some example_archive) (Some 0) heap0
       = Done (Some \<lparr> entry = 0, position = 0 \<rparr>, Some example_opened,
               heap0\<lparr>requests := 1, live := {#0#}\<rparr>)
   \<and> compression_method (entries example_archive ! 0) = 0"
  using fopen_compressed[where a = example_archive and i = 1 and h = heap0
      and nm = "Some [0x62]" and ap = "Some example_archive" and ep = "Some 0"
      and f = "\<lparr> entry = 0, position = 0 \<rparr>" and ao = "Some example_opened"
      and h' = "heap0\<lparr>requests := 1, live := {#0#}\<rparr>"]
    example_fopen example_find_b example_entry0 example_entry1
  by simp

text \<open>The failure on a compressed entry is not reported as \<open>ZIPRAND_ERR_COMPRESSED\<close>: on the
  deflated member \<open>b\<close> the call returns what it returns for a \<open>NULL\<close> entry pointer.\<close>

theorem fopen_compressed_unreported:
  "compression_method (entries example_archive ! 1) = 8
   \<and> ziprand_fopen (Some example_archive) (Some 1) heap0 = Done (None, Some example_archive, heap0)
   \<and> ziprand_fopen (Some example_archive) None heap0 = Done (None, Some example_archive, heap0)"
  using example_entry1 by simp

section \<open>Opening is all or nothing\<close>

lemma live_malloc:
  "malloc n h = (Some p, h') \<Longrightarrow> live h' = add_mset p (live h)"
  "malloc n h = (None, h') \<Longrightarrow> live h' = live h"
  by (auto simp: malloc_def split: if_splits)

lemma live_free: "live (free p h) = live h - {#p#}"
  by (simp add: free_def)

lemma read_extra_live:
  "read_extra a off extra_len sizes h = Done (r, h') \<Longrightarrow> live h' = live h"
  by (auto simp: read_extra_def live_free dest!: live_malloc
      split: if_splits prod.splits option.splits outcome.splits)

lemma read_cd_entry_live:
  assumes "read_cd_entry a off h = Done (r, h')"
  shows "case r of Inl err \<Rightarrow> live h' = live h
         | Inr (e, off') \<Rightarrow> live h' = add_mset (name_ptr e) (live h) \<and> data_offset e = 0"
  using assms
  by (auto simp: read_cd_entry_def live_free dest!: live_malloc read_extra_live
      split: if_splits prod.splits option.splits outcome.splits sum.splits)

lemma free_names_live: "live (free_names es h) = live h - mset (map name_ptr es)"
  by (induction es arbitrary: h) (simp_all add: live_free)

lemma read_entries_None:
  "read_entries a n off acc h = Done (None, h') \<Longrightarrow>
     live h' = live h - mset (map name_ptr acc)"
proof (induction n arbitrary: off acc h)
  case 0
  then show ?case by simp
next
  case (Suc n)
  from Suc.prems obtain r h1 where r: "read_cd_entry a off h = Done (r, h1)"
    by (auto split: outcome.splits)
  show ?case
  proof (cases r)
    case (Inl err)
    with Suc.prems r read_cd_entry_live[OF r] show ?thesis
      by (auto simp: free_names_live)
  next
    case (Inr p)
    then obtain e off' where p: "r = Inr (e, off')" by (cases p) auto
    with Suc.prems r have "read_entries a n off' (acc @ [e]) h1 = Done (None, h')"
      by simp
    from Suc.IH[OF this] read_cd_entry_live[OF r] p show ?thesis
      by simp
  qed
qed

lemma read_entries_Some:
  "read_entries a n off acc h = Done (Some es, h') \<Longrightarrow>
     (\<exists>new. es = acc @ new \<and> length new = n \<and> parsed_chain a off h new
        \<and> \<not> some_entry_fails a n off h
        \<and> (\<forall>e\<in>set new. data_offset e = 0)
        \<and> live h' = live h + mset (map name_ptr new))"
proof (induction n arbitrary: off acc h)
  case 0
  then show ?case by simp
next
  case (Suc n)
  from Suc.prems obtain r h1 where r: "read_cd_entry a off h = Done (r, h1)"
    by (auto split: outcome.splits)
  from Suc.prems r obtain e off' where p: "r = Inr (e, off')"
    by (cases r) auto
  with Suc.prems r have "read_entries a n off' (acc @ [e]) h1 = Done (Some es, h')"
    by simp
  from Suc.IH[OF this] obtain new where new: "es = (acc @ [e]) @ new" "length new = n"
    "parsed_chain a off' h1 new" "\<not> some_entry_fails a n off' h1"
    "\<forall>e\<in>set new. data_offset e = 0" "live h' = live h1 + mset (map name_ptr new)"
    by blast
  show ?case
    using new r p read_cd_entry_live[OF r]
    by (intro exI[of _ "e # new"]) simp
qed

lemma read_entries_fails:
  "read_entries a n off acc h = Done (x, h') \<Longrightarrow> some_entry_fails a n off h \<Longrightarrow> x = None"
  using read_entries_Some[of a n off acc h _ h'] by (cases x) auto

lemma open_None:
  assumes "ziprand_open so h = Done (None, h')"
  shows "live h' = live h"
proof (cases so)
  case None
  with assms show ?thesis by simp
next
  case (Some s)
  show ?thesis
    using assms unfolding Some
    by (auto simp: live_free Let_def dest!: live_malloc read_entries_None
        split: if_splits prod.splits option.splits outcome.splits sum.splits)
qed

lemma open_Some:
  assumes "ziprand_open so h = Done (Some a, h')"
  shows "\<exists>s ap h1 ep h2 cd. so = Some s \<and> a = (archive0 s)\<lparr>entries := entries a, entry_count := entry_count a\<rparr>
          \<and> malloc sizeof_archive h = (Some ap, h1)
          \<and> get_cd_info (archive0 s) = Done (Inr (cd, entry_count a))
          \<and> malloc (unat (entry_count a) * sizeof_entry) h1 = (Some ep, h2)
          \<and> read_entries (archive0 s) (unat (entry_count a)) cd [] h2 = Done (Some (entries a), h')"
proof (cases so)
  case None
  with assms show ?thesis by simp
next
  case (Some s)
  show ?thesis
    using assms unfolding Some
    by (auto simp: Let_def archive0_def
        split: if_splits prod.splits option.splits outcome.splits sum.splits)
qed

lemma read_entries_fails_Done:
  "some_entry_fails a n off h \<Longrightarrow> \<exists>h'. read_entries a n off acc h = Done (None, h')"
proof (induction n arbitrary: off acc h)
  case 0
  then show ?case by simp
next
  case (Suc n)
  then show ?case
    by (auto split: outcome.splits sum.splits prod.splits)
qed

lemma open_entry_fails:
  assumes "malloc sizeof_archive h = (Some ap, h1)" "\<not> io_get_size s <s 0"
    and "get_cd_info (archive0 s) = Done (Inr (cd, n))"
    and "malloc (unat n * sizeof_entry) h1 = (Some ep, h2)"
    and "some_entry_fails (archive0 s) (unat n) cd h2"
  shows "\<exists>h'. ziprand_open (Some s) h = Done (None, h') \<and> live h' = live h"
proof -
  from read_entries_fails_Done[OF assms(5)] obtain h3 where
    r: "read_entries (archive0 s) (unat n) cd [] h2 = Done (None, h3)"
    by blast
  have "ziprand_open (Some s) h = Done (None, free ap (free ep h3))"
    using assms(1-4) r by (simp add: archive0_def Let_def)
  moreover from this have "live (free ap (free ep h3)) = live h"
    by (rule open_None)
  ultimately show ?thesis by blast
qed

text \<open>
  Claim C9.  Whenever \<open>ziprand_open\<close> returns \<open>NULL\<close>, the heap holds the blocks it held
  before the call: everything allocated in the attempt (the archive, the entry table,
  the names of the entries parsed so far) is freed.  Whenever it returns an archive, the
  archive has exactly the announced number of entries, each one returned by a successful
  \<open>read_cd_entry\<close> in directory order, none having failed, and the blocks of the archive,
  of the table and of the names are live.  And when the directory is located and the
  table allocated, a directory entry on which \<open>read_cd_entry\<close> returns an error (bad
  signature, short read, failed allocation) makes \<open>ziprand_open\<close> return \<open>NULL\<close> with the
  heap as before the call.
\<close>

theorem open_all_or_nothing:
  "(ziprand_open so h = Done (r, h') \<longrightarrow>
     (case r of
        None \<Rightarrow> live h' = live h
      | Some a \<Rightarrow>
          (\<exists>s ap h1 ep h2 cd. so = Some s
             \<and> malloc sizeof_archive h = (Some ap, h1)
             \<and> get_cd_info (archive0 s) = Done (Inr (cd, entry_count a))
             \<and> malloc (unat (entry_count a) * sizeof_entry) h1 = (Some ep, h2)
             \<and> length (entries a) = unat (entry_count a)
             \<and> parsed_chain (archive0 s) cd h2 (entries a)
             \<and> \<not> some_entry_fails (archive0 s) (unat (entry_count a)) cd h2
             \<and> live h' = live h + {#ap, ep#} + mset (map name_ptr (entries a)))))
   \<and> (malloc sizeof_archive h = (Some ap', h1') \<and> \<not> io_get_size s' <s 0
        \<and> get_cd_info (archive0 s') = Done (Inr (cd', n))
        \<and> malloc (unat n * sizeof_entry) h1' = (Some ep', h2')
        \<and> some_entry_fails (archive0 s') (unat n) cd' h2' \<longrightarrow>
        (\<exists>h3. ziprand_open (Some s') h = Done (None, h3) \<and> live h3 = live h))"
proof (intro conjI impI)
  assume op: "ziprand_open so h = Done (r, h')"
  show "case r of
        None \<Rightarrow> live h' = live h
      | Some a \<Rightarrow>
          (\<exists>s ap h1 ep h2 cd. so = Some s
             \<and> malloc sizeof_archive h = (Some ap, h1)
             \<and> get_cd_info (archive0 s) = Done (Inr (cd, entry_count a))
             \<and> malloc (unat (entry_count a) * sizeof_entry) h1 = (Some ep, h2)
             \<and> length (entries a) = unat (entry_count a)
             \<and> parsed_chain (archive0 s) cd h2 (entries a)
             \<and> \<not> some_entry_fails (archive0 s) (unat (entry_count a)) cd h2
             \<and> live h' = live h + {#ap, ep#} + mset (map name_ptr (entries a)))"
  proof (cases r)
    case None
    with op open_None show ?thesis by simp
  next
    case (Some a)
    from open_Some[OF op[unfolded Some]] obtain s ap h1 ep h2 cd where
      o: "so = Some s" "malloc sizeof_archive h = (Some ap, h1)"
         "get_cd_info (archive0 s) = Done (Inr (cd, entry_count a))"
         "malloc (unat (entry_count a) * sizeof_entry) h1 = (Some ep, h2)"
         "read_entries (archive0 s) (unat (entry_count a)) cd [] h2 = Done (Some (entries a), h')"
      by blast
    from read_entries_Some[OF o(5)] have
      e: "length (entries a) = unat (entry_count a)"
         "parsed_chain (archive0 s) cd h2 (entries a)"
         "\<not> some_entry_fails (archive0 s) (unat (entry_count a)) cd h2"
         "live h' = live h2 + mset (map name_ptr (entries a))"
      by auto
    have "live h2 = live h + {#ap, ep#}"
      using live_malloc(1)[OF o(2)] live_malloc(1)[OF o(4)] by simp
    with o e Some show ?thesis
      by auto
  qed
next
  assume "malloc sizeof_archive h = (Some ap', h1') \<and> \<not> io_get_size s' <s 0
        \<and> get_cd_info (archive0 s') = Done (Inr (cd', n))
        \<and> malloc (unat n * sizeof_entry) h1' = (Some ep', h2')
        \<and> some_entry_fails (archive0 s') (unat n) cd' h2'"
  then show "\<exists>h3. ziprand_open (Some s') h = Done (None, h3) \<and> live h3 = live h"
    using open_entry_fails by blast
qed

lemma example_get_cd_info:
  "get_cd_info (archive0 (memory_io example_zip)) = Done (Inr (73, 2))"
  by code_simp

lemma example_entry_0:
  "read_cd_entry (archive0 (memory_io example_zip)) 73 (heap_after 2 {#0, 1#})
     = Done (Inr (entries example_archive ! 0, 124), heap_after 3 {#0, 1, 2#})"
  by (simp add: read_cd_entry_def read_into_def archive0_def memory_io_def memory_read_def
      example_zip_def read_u32_le_def read_u16_le_def CENTRAL_DIR_SIGNATURE_def malloc_def
      heap_after_def heap0_def read_extra_def example_archive_def)

lemma example_entry_1:
  "read_cd_entry (archive0 (memory_io example_zip)) 124 (heap_after 3 {#0, 1, 2#})
     = Done (Inr (entries example_archive ! 1, 171), heap_after 4 {#0, 1, 2, 3#})"
  by (simp add: read_cd_entry_def read_into_def archive0_def memory_io_def memory_read_def
      example_zip_def read_u32_le_def read_u16_le_def CENTRAL_DIR_SIGNATURE_def malloc_def
      heap_after_def heap0_def read_extra_def example_archive_def)

lemma unat_2_64: "unat (2 :: u64) = Suc (Suc 0)"
  by simp

lemma example_open:
  "ziprand_open (Some (memory_io example_zip)) heap0
     = Done (Some example_archive, heap_after 4 {#0, 1, 2, 3#})"
proof -
  have m1: "malloc sizeof_archive heap0 = (Some 0, heap_after 1 {#0#})"
    by (simp add: malloc_def heap0_def heap_after_def)
  have m2: "malloc (unat (2 :: u64) * sizeof_entry) (heap_after 1 {#0#})
      = (Some 1, heap_after 2 {#0, 1#})"
    by (simp add: malloc_def heap0_def heap_after_def)
  have sz: "io_get_size (memory_io example_zip) = 193"
    by (simp add: memory_io_def length_example_zip)
  have a0: "\<lparr> io = memory_io example_zip, entries = [], entry_count = 0, total_size = 193 \<rparr>
      = archive0 (memory_io example_zip)"
    by (simp add: archive0_def sz)
  have es: "read_entries (archive0 (memory_io example_zip)) (unat (2 :: u64)) 73 []
      (heap_after 2 {#0, 1#}) = Done (Some (entries example_archive), heap_after 4 {#0, 1, 2, 3#})"
    unfolding unat_2_64 using example_entry_0 example_entry_1 by (simp add: example_archive_def)
  have ea: "archive0 (memory_io example_zip)\<lparr>entries := entries example_archive, entry_count := 2\<rparr>
      = example_archive"
    by (simp add: archive0_def example_archive_def sz)
  show ?thesis
    using m1 m2 es ea example_get_cd_info by (simp add: sz a0 word_sless_alt)
qed

lemma broken_get_cd_info:
  "get_cd_info (archive0 (memory_io broken_zip)) = Done (Inr (73, 2))"
  by code_simp

lemma broken_entry_0:
  "read_cd_entry (archive0 (memory_io broken_zip)) 73 (heap_after 2 {#0, 1#})
     = Done (Inr (entries example_archive ! 0, 124), heap_after 3 {#0, 1, 2#})"
  by (simp add: read_cd_entry_def read_into_def archive0_def memory_io_def memory_read_def
      example_zip_def broken_zip_def read_u32_le_def read_u16_le_def CENTRAL_DIR_SIGNATURE_def
      malloc_def heap_after_def heap0_def read_extra_def example_archive_def)

lemma broken_entry_1:
  "read_cd_entry (archive0 (memory_io broken_zip)) 124 (heap_after 3 {#0, 1, 2#})
     = Done (Inl ZIPRAND_ERR_INVALID_ZIP, heap_after 3 {#0, 1, 2#})"
  by (simp add: read_cd_entry_def read_into_def archive0_def memory_io_def memory_read_def
      example_zip_def broken_zip_def read_u32_le_def read_u16_le_def CENTRAL_DIR_SIGNATURE_def)

lemma broken_fails:
  "some_entry_fails (archive0 (memory_io broken_zip)) (Suc (Suc 0)) 73 (heap_after 2 {#0, 1#})"
  using broken_entry_0 broken_entry_1 by simp

theorem open_all_or_nothing_witness:
  "ziprand_open (Some (memory_io example_zip)) heap0
     = Done (Some example_archive, heap_after 4 {#0, 1, 2, 3#})
   \<and> length (entries example_archive) = unat (entry_count example_archive)
   \<and> parsed_chain (archive0 (memory_io example_zip)) 73 (heap_after 2 {#0, 1#})
        (entries example_archive)
   \<and> some_entry_fails (archive0 (memory_io broken_zip)) 2 73 (heap_after 2 {#0, 1#})
   \<and> (\<exists>h3. ziprand_open (Some (memory_io broken_zip)) heap0 = Done (None, h3) \<and> live h3 = {#})"
proof -
  have m1: "malloc sizeof_archive heap0 = (Some 0, heap_after 1 {#0#})"
    by (simp add: malloc_def heap0_def heap_after_def)
  have m2: "malloc (unat (2 :: u64) * sizeof_entry) (heap_after 1 {#0#})
      = (Some 1, heap_after 2 {#0, 1#})"
    by (simp add: malloc_def heap0_def heap_after_def)
  have sz: "\<not> io_get_size (memory_io broken_zip) <s 0"
    by (simp add: memory_io_def broken_zip_def length_example_zip word_sless_alt)
  have f: "some_entry_fails (archive0 (memory_io broken_zip)) (unat (2 :: u64)) 73
      (heap_after 2 {#0, 1#})"
    unfolding unat_2_64 by (rule broken_fails)
  have l0: "live heap0 = {#}"
    by (simp add: heap0_def)
  note t = open_all_or_nothing[where h = heap0 and ap' = 0 and h1' = "heap_after 1 {#0#}"
      and s' = "memory_io broken_zip" and cd' = 73 and n = 2 and ep' = 1
      and h2' = "heap_after 2 {#0, 1#}" and so = None and r = None and h' = heap0]
  from t m1 m2 sz f broken_get_cd_info l0
  have b: "\<exists>h3. ziprand_open (Some (memory_io broken_zip)) heap0 = Done (None, h3) \<and> live h3 = {#}"
    by simp
  have p: "parsed_chain (archive0 (memory_io example_zip)) 73 (heap_after 2 {#0, 1#})
        (entries example_archive)"
    using example_entry_0 example_entry_1 by (simp add: example_archive_def)
  have l: "length (entries example_archive) = unat (entry_count example_archive)"
    by (simp add: example_archive_def)
  from b p l f example_open show ?thesis
    unfolding unat_2_64 numeral_2_eq_2 by blast
qed

section \<open>Finding the End-of-Central-Directory record\<close>

lemma read_u32_le_low_byte:
  assumes "read_u32_le p i = Some v"
  shows "ucast v = p ! i"
proof -
  from assms have v: "v = ucast (p ! i) OR push_bit 8 (ucast (p ! (i + 1)))
                 OR push_bit 16 (ucast (p ! (i + 2))) OR push_bit 24 (ucast (p ! (i + 3)))"
    by (auto simp: read_u32_le_def split: if_splits)
  show ?thesis
    unfolding v
    by (rule bit_word_eqI) (auto simp: bit_simps)
qed

lemma eocd_signature_low_byte: "(ucast EOCD_SIGNATURE :: u8) = 0x50"
  by (simp add: EOCD_SIGNATURE_def)

lemma scan_signature_none:
  assumes "0x50 \<notin> set buffer" "k + 3 \<le> length buffer"
  shows "scan_signature buffer k = Done None"
  using assms(2)
proof (induction k)
  case 0
  then show ?case by simp
next
  case (Suc k)
  then obtain v where v: "read_u32_le buffer k = Some v"
    by (auto simp: read_u32_le_def)
  have "buffer ! k \<in> set buffer"
    using Suc.prems by simp
  with assms(1) have "buffer ! k \<noteq> 0x50" by metis
  with read_u32_le_low_byte[OF v] eocd_signature_low_byte have "v \<noteq> EOCD_SIGNATURE"
    by metis
  with v Suc show ?case by simp
qed

lemma length_straddle_zip: "length straddle_zip = 8194"
  by (simp add: straddle_zip_def)

lemma straddle_read:
  "memory_read straddle_zip 2 8192 = (8192, drop 2 straddle_zip)"
  by (simp add: memory_read_def length_straddle_zip)

lemma straddle_buffer:
  "0x50 \<notin> set (drop 2 straddle_zip)" "length (drop 2 straddle_zip) = 8192"
  by (simp_all add: straddle_zip_def)

lemma straddle_scan: "scan_signature (drop 2 straddle_zip) 8189 = Done None"
  by (rule scan_signature_none) (simp_all add: straddle_buffer length_straddle_zip)

lemma straddle_chunk:
  "find_eocd_chunk (archive0 (memory_io straddle_zip)) 8194 8194 8194 = Break"
  by (simp add: find_eocd_chunk_def archive0_def memory_io_def read_into_def straddle_read
      length_straddle_zip straddle_scan word_sle_eq)

lemma straddle_find_eocd:
  "find_eocd (archive0 (memory_io straddle_zip)) = Done (Inl ZIPRAND_ERR_INVALID_ZIP)"
proof -
  have "total_size (archive0 (memory_io straddle_zip)) = 8194"
    by (simp add: archive0_def memory_io_def length_straddle_zip)
  then show ?thesis
    by (simp add: find_eocd_def find_eocd_loop.simps[of _ 8194 8194 8194] straddle_chunk)
qed

text \<open>
  Claim C1.  The claim says that \<open>find_eocd\<close> returns the signature occurrence closest to
  the end of its window.  The code reads the window in chunks of 8192 bytes that do not
  overlap and looks for the signature inside each chunk only.  In \<open>straddle_zip\<close> the
  only signature is at offset 0, inside the window (the whole file); the one chunk read
  is the bytes from offset 2 on, the loop then stops because \<open>search_pos < 3\<close>, and
  \<open>find_eocd\<close> returns \<open>ZIPRAND_ERR_INVALID_ZIP\<close>: \<open>ziprand_open\<close> returns \<open>NULL\<close> on a
  well-formed empty archive.
\<close>

theorem find_eocd_straddle:
  "read_u32_le straddle_zip 0 = Some EOCD_SIGNATURE
   \<and> read_u16_le straddle_zip 10 = Some 0
   \<and> read_u16_le straddle_zip 20 = Some 8172
   \<and> length straddle_zip = 22 + 8172
   \<and> find_eocd (archive0 (memory_io straddle_zip)) = Done (Inl ZIPRAND_ERR_INVALID_ZIP)
   \<and> ziprand_open (Some (memory_io straddle_zip)) heap0 = Done (None, heap_after 1 {#})"
proof -
  have sig: "read_u32_le straddle_zip 0 = Some EOCD_SIGNATURE"
    "read_u16_le straddle_zip 10 = Some 0" "read_u16_le straddle_zip 20 = Some 8172"
    by (simp_all add: read_u32_le_def read_u16_le_def straddle_zip_def EOCD_SIGNATURE_def)
  have sz: "io_get_size (memory_io straddle_zip) = 8194"
    by (simp add: memory_io_def length_straddle_zip)
  have a0: "\<lparr> io = memory_io straddle_zip, entries = [], entry_count = 0, total_size = 8194 \<rparr>
      = archive0 (memory_io straddle_zip)"
    by (simp add: archive0_def sz)
  have cd: "get_cd_info (archive0 (memory_io straddle_zip)) = Done (Inl ZIPRAND_ERR_INVALID_ZIP)"
    by (simp add: get_cd_info_def straddle_find_eocd)
  have op: "ziprand_open (Some (memory_io straddle_zip)) heap0 = Done (None, heap_after 1 {#})"
    by (simp add: sz a0 cd malloc_def heap0_def heap_after_def free_def sizeof_archive_def
        word_sless_alt)
  from sig length_straddle_zip straddle_find_eocd op show ?thesis
    by simp
qed

lemma length_count_zip: "length count_zip = 8203"
  by (simp add: count_zip_def)

lemma count_read_1: "memory_read count_zip 11 8192 = (8192, drop 11 count_zip)"
  by (simp add: memory_read_def length_count_zip)

lemma count_buffer_1: "0x50 \<notin> set (drop 11 count_zip)"
  by (simp add: count_zip_def)

lemma count_scan_1: "scan_signature (drop 11 count_zip) 8189 = Done None"
  by (rule scan_signature_none) (simp_all add: count_buffer_1 length_count_zip)

lemma count_chunk_1:
  "find_eocd_chunk (archive0 (memory_io count_zip)) 8203 8203 8203 = Next 11"
  by (simp add: find_eocd_chunk_def archive0_def memory_io_def read_into_def count_read_1
      length_count_zip count_scan_1 word_sle_eq)

lemma count_read_2: "memory_read count_zip 0 11 = (11, take 11 count_zip)"
  by (simp add: memory_read_def length_count_zip)

lemma count_scan_2: "scan_signature (take 11 count_zip) 8 = Done (Some 0)"
  by code_simp

lemma count_load: "read_u16_le (take 11 count_zip) 10 = None"
  by (simp add: read_u16_le_def length_count_zip)

lemma count_chunk_2:
  "find_eocd_chunk (archive0 (memory_io count_zip)) 8203 8203 11 = Return Fault"
  by (simp add: find_eocd_chunk_def archive0_def memory_io_def read_into_def count_read_2
      length_count_zip count_scan_2 word_sle_eq eocd_found_def count_load)

text \<open>
  A second slip of \<open>find_eocd\<close>: the entry count is taken from the chunk when
  \<open>i + 10 < bytes_read\<close>, which is true when the chunk ends after the low byte of the
  count.  In \<open>count_zip\<close> the record starts 8203 bytes before the end; the second chunk
  is the first 11 bytes of the file, the signature is found at \<open>i = 0\<close>, and the high byte
  of the count is loaded from \<open>buffer[11]\<close>, which this read did not write (it holds the
  byte the previous chunk left there, a byte of the comment).
\<close>

lemma find_eocd_count_past_read:
  "find_eocd (archive0 (memory_io count_zip)) = Fault"
proof -
  have "total_size (archive0 (memory_io count_zip)) = 8203"
    by (simp add: archive0_def memory_io_def length_count_zip)
  then show ?thesis
    by (simp add: find_eocd_def find_eocd_loop.simps[of _ 8203 8203 8203]
        find_eocd_loop.simps[of _ 8203 8203 11] count_chunk_1 count_chunk_2)
qed

section \<open>The entry count\<close>
























































lemma zip64_offset_zero:
  assumes "read_into (io a0) (if 20 < eo then eo - 20 else 0) 20 20 = Done (20, search_buf)"
    and "scan_locator search_buf 0 17 = Done 0"
  shows "read_zip64_eocd a0 eo = Done (Inl ZIPRAND_ERR_INVALID_ZIP)"
  using assms by (simp add: read_zip64_eocd_def)







lemma example_parsed_chain:
  "parsed_chain (archive0 (memory_io example_zip)) 73 (heap_after 2 {#0, 1#})
     (entries example_archive)"
  using example_entry_0 example_entry_1 by (simp add: example_archive_def)







lemma example64_entry_0:
  "read_cd_entry (archive0 (memory_io example_zip64)) 40 (heap_after 2 {#0, 1#})
     = Done (Inr (entries example64_archive ! 0, 91), heap_after 3 {#0, 1, 2#})"
  by (simp add: read_cd_entry_def read_into_def archive0_def memory_io_def memory_read_def
      example_zip64_def read_u32_le_def read_u16_le_def CENTRAL_DIR_SIGNATURE_def malloc_def
      heap_after_def heap0_def read_extra_def example64_archive_def)

lemma example64_parsed_chain:
  "parsed_chain (archive0 (memory_io example_zip64)) 40 (heap_after 2 {#0, 1#})
     (entries example64_archive)"
  using example64_entry_0 by (simp add: example64_archive_def)




text \<open>
  The record of a ZIP64 archive may lie at offset 0, when the archive is empty; the
  locator then holds 0, which \<open>read_zip64_eocd\<close> takes for no locator found.
\<close>

lemma empty_zip64_rejected:
  "eocd_fields empty_zip64 76 = Some (0, 0xFFFFFFFF)"
  "locator_at empty_zip64 (locator_window 76) = Some 0"
  "zip64_fields empty_zip64 0 = Some (0, 0)"
  "get_cd_info (archive0 (memory_io empty_zip64)) = Done (Inl ZIPRAND_ERR_INVALID_ZIP)"
  by code_simp+







end
